theory Spec2Isabelle
  imports Main
begin

section \<open>The conda environment runner of tox-conda\<close>

text \<open>
  The plugin (\<^verbatim>\<open>src/tox_conda/plugin.py\<close>) looks for the \<^verbatim>\<open>conda\<close> executable, derives a
  cache fingerprint from the configuration, assembles command lines as strings, splits
  them with \<^verbatim>\<open>shlex.split\<close> and runs them with \<^verbatim>\<open>subprocess.run\<close>.  The embedding keeps
  this shape: every function of the source is a HOL function of the same name, exceptions
  are values of the type \<open>error\<close>, and what the code reads from or does to its
  surroundings is explicit.
\<close>

subsection \<open>Errors\<close>

datatype error =
    Fail string
  | KeyError string
  | FileNotFoundError string
  | OSError string
  | CalledProcessError string
  | IndexError
  | TypeError
  | OtherError string

text \<open>
  Sequencing of computations that may raise: the first error is the result.
\<close>

definition bind_e :: "error + 'a \<Rightarrow> ('a \<Rightarrow> error + 'b) \<Rightarrow> error + 'b" where
  "bind_e m f = (case m of Inl e \<Rightarrow> Inl e | Inr x \<Rightarrow> f x)"

subsection \<open>Python truthiness\<close>

text \<open>
  The source tests optional strings and lists with \<^verbatim>\<open>if x:\<close>.  Such a value is \<open>None\<close>
  or a string (a list); it is true when it is present and not empty.
\<close>

definition value_of :: "'a list option \<Rightarrow> 'a list" where
  "value_of x = (case x of None \<Rightarrow> [] | Some v \<Rightarrow> v)"

definition truthy :: "'a list option \<Rightarrow> bool" where
  "truthy x = (value_of x \<noteq> [])"

subsection \<open>Paths\<close>

text \<open>
  Paths are POSIX path strings.  \<open>path_name\<close> is \<^verbatim>\<open>Path.name\<close>, the final component,
  and \<open>path_parent\<close> is \<^verbatim>\<open>Path.parent\<close>; both are applied by the source to resolved
  (absolute, normalised) paths only.  \<open>path_join\<close> is how a relative name is
  looked up from a directory.
\<close>

definition path_name :: "string \<Rightarrow> string" where
  "path_name p = rev (takeWhile (\<lambda>c. c \<noteq> CHR ''/'') (rev p))"

definition path_parent :: "string \<Rightarrow> string" where
  "path_parent p =
     (let d = rev (drop 1 (dropWhile (\<lambda>c. c \<noteq> CHR ''/'') (rev p)))
      in if d = [] then ''/'' else d)"

definition path_join :: "string \<Rightarrow> string \<Rightarrow> string" where
  "path_join d n =
     (if n \<noteq> [] \<and> hd n = CHR ''/'' then n
      else if d = ''/'' then d @ n
      else d @ ''/'' @ n)"

subsection \<open>The surroundings of the plugin\<close>

text \<open>
  A conda environment file, as \<^verbatim>\<open>YAML().load\<close> returns it: a mapping of which the
  source reads the keys \<^verbatim>\<open>name\<close> and \<^verbatim>\<open>dependencies\<close>.  An entry of the dependency list
  is a string or a nested mapping (such as a \<^verbatim>\<open>pip:\<close> section).  A key is absent or
  holds a value of its type: a name that is not a string and a \<^verbatim>\<open>dependencies\<close> that is
  not a list are not represented.
\<close>

datatype yaml_item = YStr string | YMap "(string \<times> string list) list"

record env_file =
  yaml_name :: "string option"
  yaml_dependencies :: "yaml_item list option"
  yaml_other :: "(string \<times> string) list"

text \<open>What \<^verbatim>\<open>subprocess.run\<close> returns: a \<^verbatim>\<open>CompletedProcess\<close>.\<close>

record completed_process =
  returncode :: int
  stdout :: string

text \<open>
  The host's \<^verbatim>\<open>ExecuteRequest\<close>, with the arguments of its constructor as fields, and
  what the host reports of a request it has executed (\<^verbatim>\<open>ExecuteStatus\<close>).
\<close>

datatype stdin_source = OFF | USER | API

record execute_request =
  req_cmd :: "string list"
  req_cwd :: string
  req_env :: "string \<rightharpoonup> string"
  req_stdin :: stdin_source
  req_run_id :: string
  req_allow :: "string list option"

record execute_status =
  exit_code :: int
  out :: string
  err :: string

text \<open>
  The world holds everything the plugin takes from outside and does not change: the
  process environment, the working directory, and the library functions it calls
  (\<^verbatim>\<open>shutil.which\<close>, \<^verbatim>\<open>Path.resolve\<close>, \<^verbatim>\<open>Path.exists\<close>, \<^verbatim>\<open>hashlib.sha1\<close>, the YAML loader
  and dumper, \<^verbatim>\<open>tempfile.NamedTemporaryFile\<close>, \<^verbatim>\<open>shlex.split\<close>, \<^verbatim>\<open>subprocess.run\<close>,
  \<^verbatim>\<open>json.loads\<close>), together with what the host framework supplies (the version of the
  base interpreter, the base class's cache, and the execution of a request).
  \<open>subprocess_run\<close> gives, for a command, the completed process, or the text of the
  \<^verbatim>\<open>OSError\<close> that \<^verbatim>\<open>subprocess.run\<close> raises when the command cannot be executed;
  \<open>str_called_process_error\<close> is the text of the \<^verbatim>\<open>CalledProcessError\<close> that
  \<^verbatim>\<open>check=True\<close> raises for a command and its return code.
\<close>

record 'h world =
  environ :: "string \<rightharpoonup> string"
  cwd :: string
  which :: "string \<Rightarrow> string option"
  resolve :: "string \<Rightarrow> string"
  path_exists :: "string \<Rightarrow> bool"
  sha1_hexdigest :: "string \<Rightarrow> string"
  yaml_load :: "string \<Rightarrow> error + env_file"
  yaml_dump :: "env_file \<Rightarrow> string"
  temp_path :: "string \<Rightarrow> string \<Rightarrow> string \<Rightarrow> string"
  shlex_split :: "string \<Rightarrow> error + string list"
  subprocess_run :: "string list \<Rightarrow> string + completed_process"
  str_called_process_error :: "string list \<Rightarrow> int \<Rightarrow> string"
  json_loads_envs :: "string \<Rightarrow> error + string list"
  version_dot :: string
  host_cache :: "string \<rightharpoonup> 'h"
  execute :: "execute_request \<Rightarrow> execute_status"

text \<open>
  The state holds what the plugin changes: the regular files it reads, writes and
  unlinks (absolute path to content), the commands it has given to
  \<^verbatim>\<open>subprocess.run\<close> (oldest first), and the runner's flag \<^verbatim>\<open>_created\<close>.
\<close>

record state =
  files :: "string \<rightharpoonup> string"
  procs :: "string list list"
  created :: bool

text \<open>Sequencing of computations that change the state and may raise.\<close>

definition bind_s ::
  "(state \<Rightarrow> state \<times> (error + 'a)) \<Rightarrow> ('a \<Rightarrow> state \<Rightarrow> state \<times> (error + 'b)) \<Rightarrow>
   state \<Rightarrow> state \<times> (error + 'b)" where
  "bind_s m f s = (case m s of (s1, Inl e) \<Rightarrow> (s1, Inl e) | (s1, Inr x) \<Rightarrow> f x s1)"

definition lift_e :: "error + 'a \<Rightarrow> state \<Rightarrow> state \<times> (error + 'a)" where
  "lift_e m s = (s, m)"

text \<open>
  \<^verbatim>\<open>subprocess.run(args)\<close>: the command is recorded, and its completed process is
  returned or \<^verbatim>\<open>OSError\<close> raised.  With \<^verbatim>\<open>check=True\<close> a nonzero return code raises
  \<^verbatim>\<open>CalledProcessError\<close>.
\<close>

definition run ::
  "'h world \<Rightarrow> string list \<Rightarrow> state \<Rightarrow> state \<times> (error + completed_process)" where
  "run w args s =
     (s\<lparr>procs := procs s @ [args]\<rparr>,
      case subprocess_run w args of Inl e \<Rightarrow> Inl (OSError e) | Inr cp \<Rightarrow> Inr cp)"

definition run_checked ::
  "'h world \<Rightarrow> string list \<Rightarrow> state \<Rightarrow> state \<times> (error + completed_process)" where
  "run_checked w args s =
     (case run w args s of
        (s1, Inl e) \<Rightarrow> (s1, Inl e)
      | (s1, Inr cp) \<Rightarrow>
          if returncode cp \<noteq> 0
          then (s1, Inl (CalledProcessError (str_called_process_error w args (returncode cp))))
          else (s1, Inr cp))"

subsection \<open>Finding the executable\<close>

text \<open>
  \<^verbatim>\<open>find_conda\<close> (plugin.py, 460-480).  In the third case the probe \<^verbatim>\<open>conda -h\<close> is run
  without \<^verbatim>\<open>check=True\<close> inside \<^verbatim>\<open>try ... except subprocess.CalledProcessError: pass\<close>: a
  \<^verbatim>\<open>CalledProcessError\<close> would lead on to the final \<^verbatim>\<open>raise Fail\<close>, and any other error of
  the probe, such as the \<^verbatim>\<open>OSError\<close> for a file that cannot be executed, is not caught.
\<close>

definition find_conda :: "'h world \<Rightarrow> state \<Rightarrow> state \<times> (error + string)" where
  "find_conda w s =
     (let conda_exe = environ w ''_CONDA_EXE'' in
      if truthy conda_exe then (s, Inr (resolve w (value_of conda_exe)))
      else
        let conda_exe = environ w ''CONDA_EXE'' in
        if truthy conda_exe then (s, Inr (resolve w (value_of conda_exe)))
        else
          let conda_exe = which w ''conda'' in
          if truthy conda_exe then
            (let conda_exe = resolve w (value_of conda_exe) in
             case run w [conda_exe, ''-h''] s of
               (s1, Inr _) \<Rightarrow> (s1, Inr conda_exe)
             | (s1, Inl (CalledProcessError _)) \<Rightarrow>
                 (s1, Inl (Fail ''Failed to find 'conda' executable.''))
             | (s1, Inl e) \<Rightarrow> (s1, Inl e))
          else (s, Inl (Fail ''Failed to find 'conda' executable.'')))"

subsection \<open>Configuration and runner\<close>

text \<open>
  The configuration keys that \<^verbatim>\<open>tox_add_env_config\<close> registers (plugin.py, 406-457),
  with the host's \<^verbatim>\<open>base_python\<close> and \<^verbatim>\<open>change_dir\<close>.  A key with default \<^verbatim>\<open>None\<close> is an
  option; \<open>conda_deps\<close> is the list that \<^verbatim>\<open>unroll()\<close> returns.
\<close>

record conf =
  base_python :: "string list"
  conda_name :: "string option"
  conda_env :: "string option"
  conda_spec :: "string option"
  conda_deps :: "string list"
  conda_channels :: "string list option"
  conda_install_args :: "string list option"
  conda_create_args :: "string list option"
  change_dir :: string

text \<open>
  The runner: its configuration, the value of \<^verbatim>\<open>getattr(self.options, "conda_name", None)\<close>,
  the environment directory and the environment variables it passes to commands.
\<close>

record runner =
  conf :: conf
  options_conda_name :: "string option"
  env_dir :: string
  environment_variables :: "string \<rightharpoonup> string"

subsection \<open>The version of the interpreter\<close>

text \<open>
  \<^verbatim>\<open>_get_python_env_version\<close> (plugin.py, 90-102) matches the first entry of
  \<^verbatim>\<open>base_python\<close> against \<^verbatim>\<open>python(\d)(?:\.(\d+))?(?:\.?(\d))?\<close> at its start.  Every part
  after the first digit is optional, so the greedy match never backtracks:
  \<open>match_base_python\<close> returns the three groups.  A digit is an ASCII digit.
\<close>

definition is_digit :: "char \<Rightarrow> bool" where
  "is_digit c = (c \<in> set ''0123456789'')"

fun match_prefix :: "string \<Rightarrow> string \<Rightarrow> string option" where
  "match_prefix [] s = Some s"
| "match_prefix (p # ps) [] = None"
| "match_prefix (p # ps) (c # cs) = (if p = c then match_prefix ps cs else None)"

definition match_minor :: "string \<Rightarrow> string option \<times> string" where
  "match_minor r =
     (case r of
        [] \<Rightarrow> (None, r)
      | c # r' \<Rightarrow>
          if c = CHR ''.'' \<and> takeWhile is_digit r' \<noteq> []
          then (Some (takeWhile is_digit r'), dropWhile is_digit r')
          else (None, r))"

definition match_micro :: "string \<Rightarrow> string option" where
  "match_micro r =
     (case r of
        [] \<Rightarrow> None
      | c # r' \<Rightarrow>
          if c = CHR ''.'' then
            (case r' of [] \<Rightarrow> None | e # _ \<Rightarrow> if is_digit e then Some [e] else None)
          else if is_digit c then Some [c]
          else None)"

definition match_base_python ::
  "string \<Rightarrow> (string \<times> string option \<times> string option) option" where
  "match_base_python s =
     (case match_prefix ''python'' s of
        None \<Rightarrow> None
      | Some [] \<Rightarrow> None
      | Some (d # r1) \<Rightarrow>
          if is_digit d then
            (case match_minor r1 of (g2, r2) \<Rightarrow> Some ([d], g2, match_micro r2))
          else None)"

definition get_python_env_version :: "'h world \<Rightarrow> runner \<Rightarrow> error + string" where
  "get_python_env_version w r =
     (case base_python (conf r) of
        [] \<Rightarrow> Inl IndexError
      | b # _ \<Rightarrow>
          (case match_base_python b of
             Some (g1, g2, g3) \<Rightarrow>
               (let version = g1;
                    version = (if truthy g2 then version @ ''.'' @ value_of g2 else version);
                    version = (if truthy g3 then version @ ''.'' @ value_of g3 else version)
                in Inr version)
           | None \<Rightarrow> Inr (version_dot w)))"

subsection \<open>The cache fingerprint\<close>

text \<open>
  \<^verbatim>\<open>hash_file\<close> (plugin.py, 483-487) opens \<^verbatim>\<open>file.name\<close>.  Its argument is a \<^verbatim>\<open>Path\<close>, whose
  \<^verbatim>\<open>name\<close> is the final component, and \<^verbatim>\<open>open\<close> looks a relative name up from the working
  directory.
\<close>

definition hash_file :: "'h world \<Rightarrow> (string \<rightharpoonup> string) \<Rightarrow> string \<Rightarrow> error + string" where
  "hash_file w fs file =
     (case fs (path_join (cwd w) (path_name file)) of
        None \<Rightarrow> Inl (FileNotFoundError (path_name file))
      | Some content \<Rightarrow> Inr (sha1_hexdigest w content))"

text \<open>\<^verbatim>\<open>YAML().load(path)\<close>: the file at the path is read and parsed.\<close>

definition load_yaml :: "'h world \<Rightarrow> (string \<rightharpoonup> string) \<Rightarrow> string \<Rightarrow> error + env_file" where
  "load_yaml w fs path =
     (case fs path of
        None \<Rightarrow> Inl (FileNotFoundError path)
      | Some content \<Rightarrow> yaml_load w content)"

text \<open>
  The dictionary \<^verbatim>\<open>conda_dict\<close> that \<^verbatim>\<open>python_cache\<close> builds has ten possible keys, each
  with one type of value; a key that is absent is \<open>None\<close>.
\<close>

record conda_dict =
  env_spec :: "string option"
  env :: "string option"
  env_path :: "string option"
  env_hash :: "string option"
  deps :: "string list option"
  spec :: "string option"
  spec_hash :: "string option"
  channels :: "string list option"
  install_args :: "string list option"
  create_args :: "string list option"

definition empty_conda_dict :: conda_dict where
  "empty_conda_dict =
     \<lparr>env_spec = None, env = None, env_path = None, env_hash = None, deps = None,
      spec = None, spec_hash = None, channels = None, install_args = None,
      create_args = None\<rparr>"

text \<open>\<^verbatim>\<open>d[key]\<close> raises \<^verbatim>\<open>KeyError\<close> for an absent key.\<close>

definition getitem :: "string \<Rightarrow> 'a option \<Rightarrow> error + 'a" where
  "getitem key v = (case v of None \<Rightarrow> Inl (KeyError key) | Some x \<Rightarrow> Inr x)"

text \<open>
  The cache of the host's base class is a dictionary with values of the host's own; the
  plugin stores its dictionary under the key \<^verbatim>\<open>conda\<close>.
\<close>

datatype 'h cache_value = Host 'h | CondaDict conda_dict

text \<open>\<^verbatim>\<open>CondaEnvRunner.python_cache\<close> (plugin.py, 108-154).\<close>

definition python_cache ::
  "'h world \<Rightarrow> (string \<rightharpoonup> string) \<Rightarrow> runner \<Rightarrow> error + (string \<rightharpoonup> 'h cache_value)" where
  "python_cache w fs r =
     (let name = options_conda_name r;
          name = (if \<not> truthy name then conda_name (conf r) else name)
      in
      bind_e
        (if truthy name then
           Inr (empty_conda_dict\<lparr>env_spec := Some ''-n'', env := Some (value_of name)\<rparr>)
         else if truthy (conda_env (conf r)) then
           (let env_path = resolve w (value_of (conda_env (conf r))) in
            bind_e (load_yaml w fs env_path) (\<lambda>env_file.
            bind_e (getitem ''name'' (yaml_name env_file)) (\<lambda>env_name.
            bind_e (hash_file w fs (resolve w (value_of (conda_env (conf r))))) (\<lambda>h.
              Inr (empty_conda_dict\<lparr>env_spec := Some ''-n'', env := Some env_name,
                                    env_path := Some env_path, env_hash := Some h\<rparr>)))))
         else
           Inr (empty_conda_dict\<lparr>env_spec := Some ''-p'', env := Some (env_dir r)\<rparr>))
        (\<lambda>d.
           let d = (if conda_deps (conf r) \<noteq> [] then d\<lparr>deps := Some (conda_deps (conf r))\<rparr>
                    else d)
           in
           bind_e
             (if truthy (conda_spec (conf r)) then
                bind_e (hash_file w fs (resolve w (value_of (conda_spec (conf r))))) (\<lambda>h.
                  Inr (d\<lparr>spec := Some (value_of (conda_spec (conf r))), spec_hash := Some h\<rparr>))
              else Inr d)
             (\<lambda>d.
                let d = (if truthy (conda_channels (conf r))
                         then d\<lparr>channels := Some (value_of (conda_channels (conf r)))\<rparr> else d);
                    d = (if truthy (conda_install_args (conf r))
                         then d\<lparr>install_args := Some (value_of (conda_install_args (conf r)))\<rparr>
                         else d);
                    d = (if truthy (conda_create_args (conf r))
                         then d\<lparr>create_args := Some (value_of (conda_create_args (conf r)))\<rparr>
                         else d)
                in Inr ((map_option Host \<circ> host_cache w)(''conda'' \<mapsto> CondaDict d)))))"

text \<open>\<^verbatim>\<open>self.python_cache()["conda"]\<close>.\<close>

definition conda_entry :: "(string \<rightharpoonup> 'h cache_value) \<Rightarrow> error + conda_dict" where
  "conda_entry cache =
     (case cache ''conda'' of
        Some (CondaDict d) \<Rightarrow> Inr d
      | Some (Host _) \<Rightarrow> Inl TypeError
      | None \<Rightarrow> Inl (KeyError ''conda''))"

subsection \<open>Command lines\<close>

text \<open>
  The source writes a single quote on each side of a path or an argument
  (\<^verbatim>\<open>f"'{conda_exe}' ..."\<close>).
\<close>

definition quoted :: "string \<Rightarrow> string" where
  "quoted x = [CHR 0x27] @ x @ [CHR 0x27]"

text \<open>
  The second component of what the two generators of the creation command return is a
  closure \<^verbatim>\<open>tear_down\<close>: it does nothing, or it unlinks the temporary file.
\<close>

datatype tear_down = NoTearDown | Unlink string

definition run_tear_down :: "tear_down \<Rightarrow> state \<Rightarrow> state \<times> (error + unit)" where
  "run_tear_down td s =
     (case td of
        NoTearDown \<Rightarrow> (s, Inr ())
      | Unlink p \<Rightarrow>
          if files s p = None then (s, Inl (FileNotFoundError p))
          else (s\<lparr>files := (files s)(p := None)\<rparr>, Inr ()))"

text \<open>
  \<^verbatim>\<open>CondaEnvRunner._generate_env_create_command\<close> (plugin.py, 188-214).  The temporary
  file is made beside the environment file, holds the dump of the changed document and
  is left in place (\<^verbatim>\<open>delete=False\<close>).
\<close>

definition generate_env_create_command ::
  "'h world \<Rightarrow> string \<Rightarrow> string \<Rightarrow> conda_dict \<Rightarrow> state \<Rightarrow>
   state \<times> (error + string \<times> tear_down)" where
  "generate_env_create_command w conda_exe python conda_cache_conf =
     bind_s (lift_e (getitem ''env_path'' (env_path conda_cache_conf))) (\<lambda>p.
     let env_path = resolve w p in
     bind_s (\<lambda>s. lift_e (load_yaml w (files s) env_path) s) (\<lambda>env_file.
     bind_s (lift_e (getitem ''dependencies'' (yaml_dependencies env_file))) (\<lambda>dependencies.
     let env_file = env_file\<lparr>yaml_dependencies := Some (dependencies @ [YStr python])\<rparr>;
         tmp_env_file = temp_path w (path_parent env_path) ''tox_conda_tmp'' ''.yaml'';
         cmd = quoted conda_exe @ '' env create --file '' @ quoted tmp_env_file
               @ '' --quiet --force''
     in (\<lambda>s. (s\<lparr>files := (files s)(tmp_env_file \<mapsto> yaml_dump w env_file)\<rparr>,
               Inr (cmd, Unlink tmp_env_file))))))"

text \<open>
  \<^verbatim>\<open>CondaEnvRunner._generate_create_command\<close> (plugin.py, 216-228).
  \<^verbatim>\<open>conda_cache_conf.get(key, [])\<close> is \<open>value_of\<close> of the entry.
\<close>

definition generate_create_command ::
  "string \<Rightarrow> string \<Rightarrow> conda_dict \<Rightarrow> error + string \<times> tear_down" where
  "generate_create_command conda_exe python conda_cache_conf =
     bind_e (getitem ''env_spec'' (env_spec conda_cache_conf)) (\<lambda>es.
     bind_e (getitem ''env'' (env conda_cache_conf)) (\<lambda>e.
     let cmd = quoted conda_exe @ '' create '' @ es @ '' '' @ quoted e
               @ '' '' @ python @ '' --yes --quiet'';
         cmd = foldl (\<lambda>cmd arg. cmd @ '' '' @ quoted arg) cmd
                 (value_of (create_args conda_cache_conf))
     in Inr (cmd, NoTearDown)))"

text \<open>\<^verbatim>\<open>CondaEnvRunner._generate_install_command\<close> (plugin.py, 230-260).\<close>

definition generate_install_command ::
  "string \<Rightarrow> string \<Rightarrow> conda_dict \<Rightarrow> error + string option" where
  "generate_install_command conda_exe python conda_cache_conf =
     (if deps conda_cache_conf = None \<and> spec conda_cache_conf = None then Inr None
      else
        bind_e (getitem ''env_spec'' (env_spec conda_cache_conf)) (\<lambda>es.
        bind_e (getitem ''env'' (env conda_cache_conf)) (\<lambda>e.
        let cmd = quoted conda_exe @ '' install --quiet --yes'' @ '' '' @ es @ '' '' @ quoted e;
            cmd = foldl (\<lambda>cmd channel. cmd @ '' --channel '' @ channel) cmd
                    (value_of (channels conda_cache_conf));
            cmd = foldl (\<lambda>cmd arg. cmd @ '' '' @ arg) cmd
                    (value_of (install_args conda_cache_conf));
            cmd = cmd @ '' '' @ python;
            cmd = foldl (\<lambda>cmd dep. cmd @ '' '' @ dep) cmd (value_of (deps conda_cache_conf));
            cmd = (case spec conda_cache_conf of
                     Some sp \<Rightarrow> cmd @ '' --file='' @ sp
                   | None \<Rightarrow> cmd)
        in Inr (Some cmd))))"

subsection \<open>Creating the environment\<close>

text \<open>
  \<^verbatim>\<open>try: body finally: handler\<close>: the handler runs whatever the body does, and an error
  of the handler replaces the body's result.
\<close>

definition try_finally ::
  "(state \<Rightarrow> state \<times> (error + 'a)) \<Rightarrow> (state \<Rightarrow> state \<times> (error + unit)) \<Rightarrow>
   state \<Rightarrow> state \<times> (error + 'a)" where
  "try_finally body handler s =
     (case body s of (s1, res) \<Rightarrow>
        (case handler s1 of (s2, Inl e) \<Rightarrow> (s2, Inl e) | (s2, Inr _) \<Rightarrow> (s2, res)))"

text \<open>
  The two guarded blocks of \<^verbatim>\<open>create_python_env\<close>: the command is split and run with
  \<^verbatim>\<open>check=True\<close>, and a \<^verbatim>\<open>CalledProcessError\<close> becomes a \<^verbatim>\<open>Fail\<close> (plugin.py, 170-174 and
  182-186).  An error of \<^verbatim>\<open>shlex.split\<close> and an \<^verbatim>\<open>OSError\<close> are not caught.
\<close>

definition run_create :: "'h world \<Rightarrow> runner \<Rightarrow> string \<Rightarrow> state \<Rightarrow> state \<times> (error + unit)" where
  "run_create w r create_command s =
     (case shlex_split w create_command of
        Inl e \<Rightarrow> (s, Inl e)
      | Inr create_command_args \<Rightarrow>
          (case run_checked w create_command_args s of
             (s1, Inr _) \<Rightarrow> (s1, Inr ())
           | (s1, Inl (CalledProcessError e)) \<Rightarrow>
               (s1, Inl (Fail (''Failed to create '' @ quoted (env_dir r)
                               @ '' conda environment. Error: '' @ e)))
           | (s1, Inl e) \<Rightarrow> (s1, Inl e)))"

definition run_install :: "'h world \<Rightarrow> string \<Rightarrow> state \<Rightarrow> state \<times> (error + unit)" where
  "run_install w install_command s =
     (case shlex_split w install_command of
        Inl e \<Rightarrow> (s, Inl e)
      | Inr install_command_args \<Rightarrow>
          (case run_checked w install_command_args s of
             (s1, Inr _) \<Rightarrow> (s1, Inr ())
           | (s1, Inl (CalledProcessError e)) \<Rightarrow>
               (s1, Inl (Fail (''Failed to install dependencies in conda environment. Error: ''
                               @ e)))
           | (s1, Inl e) \<Rightarrow> (s1, Inl e)))"

text \<open>
  \<^verbatim>\<open>CondaEnvRunner.create_python_env\<close> (plugin.py, 156-186), in two parts.  The first
  part (157-169) finds conda, the version and the fingerprint and generates the creation
  command; it returns the five local variables that the second part uses.
\<close>

definition creation_command ::
  "'h world \<Rightarrow> runner \<Rightarrow> state \<Rightarrow>
   state \<times> (error + string \<times> string \<times> conda_dict \<times> string \<times> tear_down)" where
  "creation_command w r =
     bind_s (find_conda w) (\<lambda>conda_exe.
     bind_s (lift_e (get_python_env_version w r)) (\<lambda>python_version.
     let python = ''python='' @ python_version in
     bind_s (\<lambda>s. lift_e (bind_e (python_cache w (files s) r) conda_entry) s)
       (\<lambda>conda_cache_conf.
     bind_s (if truthy (conda_env (conf r))
             then generate_env_create_command w conda_exe python conda_cache_conf
             else lift_e (generate_create_command conda_exe python conda_cache_conf))
       (\<lambda>(create_command, tear_down).
     lift_e (Inr (conda_exe, python, conda_cache_conf, create_command, tear_down))))))"

text \<open>
  The second part (170-186) runs the creation command, tears down, and runs the
  installation command if there is one.
\<close>

definition create_python_env :: "'h world \<Rightarrow> runner \<Rightarrow> state \<Rightarrow> state \<times> (error + unit)" where
  "create_python_env w r =
     bind_s (creation_command w r)
       (\<lambda>(conda_exe, python, conda_cache_conf, create_command, tear_down).
     bind_s (try_finally (run_create w r create_command) (run_tear_down tear_down)) (\<lambda>_.
     bind_s (lift_e (generate_install_command conda_exe python conda_cache_conf))
       (\<lambda>install_command.
     if truthy install_command then run_install w (value_of install_command)
     else lift_e (Inr ()))))"

subsection \<open>Checking that the environment exists\<close>


subsection \<open>Running commands in the environment\<close>

text \<open>
  \<^verbatim>\<open>get_conda_command_prefix\<close> and \<^verbatim>\<open>CondaExecutor.build_instance\<close> (plugin.py, 262-295).
  The instance that \<^verbatim>\<open>LocalSubProcessExecuteInstance(conda_request, options, out, err)\<close>
  makes is the record of its four arguments.
\<close>

definition get_conda_command_prefix ::
  "'h world \<Rightarrow> runner \<Rightarrow> state \<Rightarrow> state \<times> (error + string list)" where
  "get_conda_command_prefix w r =
     bind_s (find_conda w) (\<lambda>conda_exe.
     bind_s (\<lambda>s. lift_e (python_cache w (files s) r) s) (\<lambda>cache_conf.
     bind_s (lift_e (conda_entry cache_conf)) (\<lambda>d.
     bind_s (lift_e (getitem ''env_spec'' (env_spec d))) (\<lambda>es.
     bind_s (lift_e (getitem ''env'' (env d))) (\<lambda>e.
     let cmd = quoted conda_exe @ '' run'' @ '' '' @ es @ '' '' @ quoted e @ '' --live-stream''
     in lift_e (shlex_split w cmd))))))"

record ('o, 'w) execute_instance =
  inst_request :: execute_request
  inst_options :: 'o
  inst_out :: 'w
  inst_err :: 'w

definition build_instance ::
  "'h world \<Rightarrow> runner \<Rightarrow> execute_request \<Rightarrow> 'o \<Rightarrow> 'w \<Rightarrow> 'w \<Rightarrow> state \<Rightarrow>
   state \<times> (error + ('o, 'w) execute_instance)" where
  "build_instance w r request options out_w err_w =
     bind_s (get_conda_command_prefix w r) (\<lambda>conda_cmd.
     let conda_request =
           \<lparr>req_cmd = conda_cmd @ req_cmd request,
            req_cwd = req_cwd request,
            req_env = req_env request,
            req_stdin = req_stdin request,
            req_run_id = req_run_id request,
            req_allow = req_allow request\<rparr>
     in lift_e (Inr \<lparr>inst_request = conda_request, inst_options = options,
                     inst_out = out_w, inst_err = err_w\<rparr>))"







section \<open>FilteredInfo\<close>

text \<open>
  \<^verbatim>\<open>FilteredInfo.compare\<close> (\<^verbatim>\<open>src/tox_conda/FilteredInfo.py\<close>, 34-51) copies the value it is
  given and pops keys from the copy.  Whether the caller's object is changed depends on
  which object is changed, so the values live in a store: an object is an index into a
  list of values, \<^verbatim>\<open>copy()\<close> appends a new object, and \<^verbatim>\<open>pop\<close> updates the object it is
  called on.

  A value is a dictionary (it has \<^verbatim>\<open>copy\<close>, and \<^verbatim>\<open>pop(key, None)\<close> removes the key if it is
  there), a list (it has \<^verbatim>\<open>copy\<close>, but its \<^verbatim>\<open>pop\<close> takes one argument at most, so
  \<^verbatim>\<open>pop(key, None)\<close> raises \<^verbatim>\<open>TypeError\<close>), or a value without \<^verbatim>\<open>copy\<close> (a string, a number,
  \<^verbatim>\<open>None\<close>), where the \<^verbatim>\<open>AttributeError\<close> is caught and the value passed on as it is.
\<close>

datatype 'a pyvalue = PyDict "string \<rightharpoonup> 'a" | PyList "'a list" | PyAtom 'a

type_synonym 'a store = "'a pyvalue list"

record 'i filtered_info =
  filter_keys :: "string list option"
  filter_section :: "string option"
  info :: 'i

definition pop :: "'a store \<Rightarrow> nat \<Rightarrow> string \<Rightarrow> error + 'a store" where
  "pop st a fkey =
     (case st ! a of
        PyDict m \<Rightarrow> Inr (st[a := PyDict (m(fkey := None))])
      | PyList _ \<Rightarrow> Inl TypeError
      | PyAtom _ \<Rightarrow> Inl (OtherError ''AttributeError''))"

fun pop_all :: "'a store \<Rightarrow> nat \<Rightarrow> string list \<Rightarrow> error + 'a store" where
  "pop_all st a [] = Inr st"
| "pop_all st a (fkey # fkeys) = bind_e (pop st a fkey) (\<lambda>st'. pop_all st' a fkeys)"

text \<open>
  \<open>super_compare\<close> is \<^verbatim>\<open>Info.compare\<close> of the host, which is given the store, the
  object to compare, the section and the sub-section, and yields its result.
  \<open>compare\<close> returns the store and the object that it hands to \<^verbatim>\<open>Info.compare\<close>, and
  what that yields.  The argument \<open>v\<close> is an object of the store.
\<close>

definition compare ::
  "('i \<Rightarrow> 'a store \<Rightarrow> nat \<Rightarrow> string \<Rightarrow> string option \<Rightarrow> 'r) \<Rightarrow> 'i filtered_info \<Rightarrow>
   'a store \<Rightarrow> nat \<Rightarrow> string \<Rightarrow> string option \<Rightarrow> error + ('a store \<times> nat \<times> 'r)" where
  "compare super_compare self st v section sub_section =
     bind_e
       (if filter_section self = None \<or> Some section = filter_section self then
          (case st ! v of
             PyAtom _ \<Rightarrow> Inr (st, v)
           | _ \<Rightarrow>
               (let copy = length st; st1 = st @ [st ! v]
                in bind_e (pop_all st1 copy (value_of (filter_keys self)))
                     (\<lambda>st2. Inr (st2, copy))))
        else Inr (st, v))
       (\<lambda>(st', v'). Inr (st', v', super_compare (info self) st' v' section sub_section))"

section \<open>Concrete surroundings\<close>

text \<open>
  \<^verbatim>\<open>shlex.split\<close> in POSIX mode, for the concrete worlds below: blanks separate words, a
  single-quoted part is taken as it is, a double-quoted part allows a backslash before a
  double quote or a backslash, and elsewhere a backslash keeps the next character.
\<close>

datatype lex_mode = Between | InWord | InSingle | InDouble

definition is_blank :: "char \<Rightarrow> bool" where
  "is_blank c = (c \<in> set [CHR 0x20, CHR 0x09, CHR 0x0D, CHR 0x0A])"

fun posix_split :: "lex_mode \<Rightarrow> string \<Rightarrow> string \<Rightarrow> error + string list" where
  "posix_split Between tok [] = Inr []"
| "posix_split InWord tok [] = Inr [tok]"
| "posix_split InSingle tok [] = Inl (OtherError ''No closing quotation'')"
| "posix_split InDouble tok [] = Inl (OtherError ''No closing quotation'')"
| "posix_split Between tok (c # cs) =
     (if is_blank c then posix_split Between [] cs
      else if c = CHR 0x27 then posix_split InSingle [] cs
      else if c = CHR 0x22 then posix_split InDouble [] cs
      else if c = CHR 0x5C then
        (case cs of
           [] \<Rightarrow> Inl (OtherError ''No escaped character'')
         | e # cs' \<Rightarrow> posix_split InWord [e] cs')
      else posix_split InWord [c] cs)"
| "posix_split InWord tok (c # cs) =
     (if is_blank c then
        (case posix_split Between [] cs of Inl e \<Rightarrow> Inl e | Inr ts \<Rightarrow> Inr (tok # ts))
      else if c = CHR 0x27 then posix_split InSingle tok cs
      else if c = CHR 0x22 then posix_split InDouble tok cs
      else if c = CHR 0x5C then
        (case cs of
           [] \<Rightarrow> Inl (OtherError ''No escaped character'')
         | e # cs' \<Rightarrow> posix_split InWord (tok @ [e]) cs')
      else posix_split InWord (tok @ [c]) cs)"
| "posix_split InSingle tok (c # cs) =
     (if c = CHR 0x27 then posix_split InWord tok cs
      else posix_split InSingle (tok @ [c]) cs)"
| "posix_split InDouble tok (c # cs) =
     (if c = CHR 0x22 then posix_split InWord tok cs
      else if c = CHR 0x5C then
        (case cs of
           [] \<Rightarrow> Inl (OtherError ''No escaped character'')
         | e # cs' \<Rightarrow>
             if e = CHR 0x22 \<or> e = CHR 0x5C then posix_split InDouble (tok @ [e]) cs'
             else posix_split InDouble (tok @ [c, e]) cs')
      else posix_split InDouble (tok @ [c]) cs)"

text \<open>
  A project in \<^verbatim>\<open>/proj\<close> with an environment file \<^verbatim>\<open>/proj/envs/ci.yml\<close>, conda taken from
  \<^verbatim>\<open>CONDA_EXE\<close>, and every subprocess returning 0.  The loader knows the one document,
  the dumper writes a document on one line, and the digest is a stand-in that keeps the
  content readable.
\<close>

definition ci_yml :: string where
  "ci_yml = ''{name: ci, dependencies: [numpy]}''"

definition ci_doc :: env_file where
  "ci_doc = \<lparr>yaml_name = Some ''ci'', yaml_dependencies = Some [YStr ''numpy''],
            yaml_other = []\<rparr>"

definition dump_item :: "yaml_item \<Rightarrow> string" where
  "dump_item i = (case i of YStr x \<Rightarrow> x @ '','' | YMap _ \<Rightarrow> ''{...},'')"

definition dump_doc :: "env_file \<Rightarrow> string" where
  "dump_doc f =
     ''name: '' @ value_of (yaml_name f) @ ''; dependencies: ''
     @ concat (map dump_item (value_of (yaml_dependencies f)))"

definition proj_world :: "unit world" where
  "proj_world =
     \<lparr>environ = [''CONDA_EXE'' \<mapsto> ''/opt/conda/bin/conda''],
      cwd = ''/proj'',
      which = (\<lambda>_. None),
      resolve = path_join ''/proj'',
      path_exists = (\<lambda>_. False),
      sha1_hexdigest = (\<lambda>content. ''sha1 of '' @ content),
      yaml_load = (\<lambda>content. if content = ci_yml then Inr ci_doc
                              else Inl (OtherError ''YAMLError'')),
      yaml_dump = dump_doc,
      temp_path = (\<lambda>dir prefix suffix. path_join dir (prefix @ ''0a1b2c'' @ suffix)),
      shlex_split = posix_split Between [],
      subprocess_run = (\<lambda>_. Inr \<lparr>returncode = 0, stdout = []\<rparr>),
      str_called_process_error = (\<lambda>args code. ''Command '' @ concat args @ '' failed.''),
      json_loads_envs = (\<lambda>_. Inr []),
      version_dot = ''3.11.4'',
      host_cache = Map.empty,
      execute = (\<lambda>_. \<lparr>exit_code = 0, out = ''/proj/.tox/py39/bin/python'', err = []\<rparr>)\<rparr>"

definition proj_state :: state where
  "proj_state = \<lparr>files = [''/proj/envs/ci.yml'' \<mapsto> ci_yml], procs = [], created = False\<rparr>"

definition proj_conf :: conf where
  "proj_conf =
     \<lparr>base_python = [''python3.9''], conda_name = None, conda_env = None, conda_spec = None,
      conda_deps = [], conda_channels = None, conda_install_args = None,
      conda_create_args = None, change_dir = ''/proj''\<rparr>"

definition proj_runner :: runner where
  "proj_runner =
     \<lparr>conf = proj_conf, options_conda_name = None, env_dir = ''/proj/.tox/py39'',
      environment_variables = Map.empty\<rparr>"

text \<open>
  Runners of the project: one with an environment file in a subdirectory, one with an
  environment file and a name, one with a name in the options as well, and one with
  dependencies, a spec file, channels and arguments.  Two more states: one with the spec file, and one where the working
  directory holds another file called \<^verbatim>\<open>ci.yml\<close>.
\<close>

definition env_runner :: runner where
  "env_runner = proj_runner\<lparr>conf := proj_conf\<lparr>conda_env := Some ''envs/ci.yml''\<rparr>\<rparr>"

definition named_env_runner :: runner where
  "named_env_runner =
     proj_runner\<lparr>conf := proj_conf\<lparr>conda_name := Some ''ci'',
                                     conda_env := Some ''envs/ci.yml''\<rparr>\<rparr>"

definition options_runner :: runner where
  "options_runner =
     proj_runner\<lparr>conf := proj_conf\<lparr>conda_name := Some ''from-conf'',
                                     conda_env := Some ''envs/ci.yml''\<rparr>,
                  options_conda_name := Some ''from-options''\<rparr>"

definition full_runner :: runner where
  "full_runner =
     proj_runner\<lparr>conf := proj_conf\<lparr>conda_deps := [''numpy'', ''scipy>=1.0''],
       conda_spec := Some ''spec.txt'', conda_channels := Some [''conda-forge''],
       conda_install_args := Some [''--override-channels''],
       conda_create_args := Some [''--no-default-packages'']\<rparr>\<rparr>"

definition spec_state :: state where
  "spec_state =
     proj_state\<lparr>files := (files proj_state)(''/proj/spec.txt'' \<mapsto> ''numpy=1.26'')\<rparr>"

definition cwd_state :: state where
  "cwd_state = proj_state\<lparr>files := (files proj_state)(''/proj/ci.yml'' \<mapsto> ''other'')\<rparr>"

text \<open>
  The fingerprints of \<open>full_runner\<close> and of \<open>proj_runner\<close>, the command lines they lead
  to, a world where every subprocess returns 1, and a world where the installation
  returns 2.
\<close>

definition full_dict :: conda_dict where
  "full_dict =
     \<lparr>env_spec = Some ''-p'', env = Some ''/proj/.tox/py39'', env_path = None,
      env_hash = None, deps = Some [''numpy'', ''scipy>=1.0''], spec = Some ''spec.txt'',
      spec_hash = Some ''sha1 of numpy=1.26'', channels = Some [''conda-forge''],
      install_args = Some [''--override-channels''],
      create_args = Some [''--no-default-packages'']\<rparr>"

definition plain_dict :: conda_dict where
  "plain_dict = empty_conda_dict\<lparr>env_spec := Some ''-p'', env := Some ''/proj/.tox/py39''\<rparr>"

definition plain_create_command :: string where
  "plain_create_command =
     quoted ''/opt/conda/bin/conda'' @ '' create -p '' @ quoted ''/proj/.tox/py39''
     @ '' python=3.9 --yes --quiet''"

definition failing_world :: "unit world" where
  "failing_world =
     proj_world\<lparr>subprocess_run := (\<lambda>_. Inr \<lparr>returncode = 1, stdout = []\<rparr>)\<rparr>"

definition install_failing_world :: "unit world" where
  "install_failing_world =
     proj_world\<lparr>subprocess_run :=
       (\<lambda>args. Inr \<lparr>returncode = (if ''install'' \<in> set args then 2 else 0),
                    stdout = []\<rparr>)\<rparr>"

definition full_create_command :: string where
  "full_create_command =
     quoted ''/opt/conda/bin/conda'' @ '' create -p '' @ quoted ''/proj/.tox/py39''
     @ '' python=3.9 --yes --quiet '' @ quoted ''--no-default-packages''"

definition full_install_command :: string where
  "full_install_command =
     quoted ''/opt/conda/bin/conda'' @ '' install --quiet --yes -p ''
     @ quoted ''/proj/.tox/py39''
     @ '' --channel conda-forge --override-channels python=3.9 numpy scipy>=1.0''
     @ '' --file=spec.txt''"

text \<open>
  A request of the host, and a world where every path exists and conda lists no
  environment.
\<close>

definition pytest_request :: execute_request where
  "pytest_request =
     \<lparr>req_cmd = [''pytest'', ''-q''], req_cwd = ''/proj'',
      req_env = [''PATH'' \<mapsto> ''/usr/bin''], req_stdin = OFF,
      req_run_id = ''commands[0]'', req_allow = None\<rparr>"


text \<open>
  For \<open>compare\<close>: a base comparison that looks the section up in the cached content and
  tells whether the value is the cached one, a filter of the key \<^verbatim>\<open>name\<close> for every
  section, and the value that the host compares in the section \<^verbatim>\<open>ToxEnv\<close>.
\<close>

definition cached_compare ::
  "(string \<rightharpoonup> string pyvalue) \<Rightarrow> string store \<Rightarrow> nat \<Rightarrow> string \<Rightarrow> string option \<Rightarrow> bool" where
  "cached_compare content st v section sub_section = (content section = Some (st ! v))"

definition name_filter :: "(string \<rightharpoonup> string pyvalue) filtered_info" where
  "name_filter =
     \<lparr>filter_keys = Some [''name''], filter_section = None,
      info = [''ToxEnv'' \<mapsto> PyDict [''type'' \<mapsto> ''CondaEnvRunner'']]\<rparr>"

definition tox_env_filter :: "(string \<rightharpoonup> string pyvalue) filtered_info" where
  "tox_env_filter = name_filter\<lparr>filter_section := Some ''ToxEnv''\<rparr>"

definition tox_env_value :: "string pyvalue" where
  "tox_env_value = PyDict [''name'' \<mapsto> ''py39'', ''type'' \<mapsto> ''CondaEnvRunner'']"

text \<open>
  Worlds for \<^verbatim>\<open>find_conda\<close>: both variables set; no variable and conda on the PATH; the
  same with a conda that cannot be executed; and nothing but an empty \<^verbatim>\<open>_CONDA_EXE\<close>.
\<close>

definition both_env_world :: "unit world" where
  "both_env_world =
     proj_world\<lparr>environ := [''_CONDA_EXE'' \<mapsto> ''/opt/a/bin/conda'',
                             ''CONDA_EXE'' \<mapsto> ''/opt/b/bin/conda'']\<rparr>"

definition path_world :: "unit world" where
  "path_world =
     proj_world\<lparr>environ := Map.empty,
                which := (\<lambda>name. if name = ''conda'' then Some ''/usr/bin/conda'' else None)\<rparr>"

definition broken_path_world :: "unit world" where
  "broken_path_world = path_world\<lparr>subprocess_run := (\<lambda>_. Inl ''Exec format error'')\<rparr>"

definition no_conda_world :: "unit world" where
  "no_conda_world = proj_world\<lparr>environ := [''_CONDA_EXE'' \<mapsto> []]\<rparr>"



section \<open>Properties\<close>

subsection \<open>Auxiliary facts\<close>

lemma truthy_Some [simp]: "truthy (Some x) = (x \<noteq> [])"
  by (simp add: truthy_def value_of_def)

lemma truthy_None [simp]: "\<not> truthy None"
  by (simp add: truthy_def value_of_def)

lemma value_of_Some [simp]: "value_of (Some x) = x"
  by (simp add: value_of_def)

lemma value_of_None [simp]: "value_of None = []"
  by (simp add: value_of_def)

lemma truthy_value_of: "truthy x \<Longrightarrow> x = Some (value_of x)"
  by (cases x) simp_all

lemma bind_e_Inr [simp]: "bind_e (Inr x) f = f x"
  by (simp add: bind_e_def)

lemma bind_e_Inl [simp]: "bind_e (Inl e) f = Inl e"
  by (simp add: bind_e_def)

lemma bind_e_eq_Inr: "bind_e m f = Inr y \<longleftrightarrow> (\<exists>x. m = Inr x \<and> f x = Inr y)"
  by (cases m) simp_all

lemma getitem_eq_Inr [simp]: "getitem k v = Inr x \<longleftrightarrow> v = Some x"
  by (cases v) (simp_all add: getitem_def)

lemma getitem_Some [simp]: "getitem k (Some x) = Inr x"
  by (simp add: getitem_def)

lemma getitem_None [simp]: "getitem k None = Inl (KeyError k)"
  by (simp add: getitem_def)

lemma bind_s_eq_Inr:
  "bind_s m f s = (s', Inr y) \<longleftrightarrow> (\<exists>s1 x. m s = (s1, Inr x) \<and> f x s1 = (s', Inr y))"
  by (auto simp: bind_s_def split: prod.splits sum.splits)

lemma bind_s_Inr: "m s = (s1, Inr x) \<Longrightarrow> bind_s m f s = f x s1"
  by (simp add: bind_s_def)

lemma bind_s_Inl: "m s = (s1, Inl e) \<Longrightarrow> bind_s m f s = (s1, Inl e)"
  by (simp add: bind_s_def)

lemma lift_e_eq [simp]: "lift_e m s = (s', x) \<longleftrightarrow> s' = s \<and> m = x"
  by (auto simp: lift_e_def)

subsection \<open>Finding the executable\<close>

text \<open>
  What \<^verbatim>\<open>find_conda\<close> returns: the resolved path of \<^verbatim>\<open>_CONDA_EXE\<close> when that variable is
  set, otherwise that of \<^verbatim>\<open>CONDA_EXE\<close> when that is set, otherwise, when the search on the
  PATH finds \<^verbatim>\<open>conda\<close> and the probe \<^verbatim>\<open>conda -h\<close> runs to a completed process, the resolved
  result of the search; it raises \<^verbatim>\<open>Fail\<close> exactly when the three sources yield nothing,
  and then with the message \<^verbatim>\<open>Failed to find 'conda' executable.\<close>  A source yields
  something when its value is present and not the empty string, which is what the test
  \<^verbatim>\<open>if conda_exe:\<close> of the source asks.
\<close>

lemma find_conda_sources:
  "(truthy (environ w ''_CONDA_EXE'') \<longrightarrow>
      snd (find_conda w s) = Inr (resolve w (value_of (environ w ''_CONDA_EXE''))))
   \<and> (\<not> truthy (environ w ''_CONDA_EXE'') \<longrightarrow> truthy (environ w ''CONDA_EXE'') \<longrightarrow>
      snd (find_conda w s) = Inr (resolve w (value_of (environ w ''CONDA_EXE''))))
   \<and> (\<not> truthy (environ w ''_CONDA_EXE'') \<longrightarrow> \<not> truthy (environ w ''CONDA_EXE'') \<longrightarrow>
      truthy (which w ''conda'') \<longrightarrow>
      (\<forall>cp. subprocess_run w [resolve w (value_of (which w ''conda'')), ''-h''] = Inr cp \<longrightarrow>
         snd (find_conda w s) = Inr (resolve w (value_of (which w ''conda'')))))
   \<and> ((\<exists>m. snd (find_conda w s) = Inl (Fail m)) \<longleftrightarrow>
        (\<not> truthy (environ w ''_CONDA_EXE'') \<and> \<not> truthy (environ w ''CONDA_EXE'')
         \<and> \<not> truthy (which w ''conda'')))
   \<and> (\<not> truthy (environ w ''_CONDA_EXE'') \<longrightarrow> \<not> truthy (environ w ''CONDA_EXE'') \<longrightarrow>
      \<not> truthy (which w ''conda'') \<longrightarrow>
      snd (find_conda w s) = Inl (Fail ''Failed to find 'conda' executable.''))"
  by (auto simp: find_conda_def Let_def run_def split: sum.splits)

lemma find_conda_sources_examples:
  "snd (find_conda both_env_world proj_state) = Inr ''/opt/a/bin/conda''
   \<and> snd (find_conda proj_world proj_state) = Inr ''/opt/conda/bin/conda''
   \<and> snd (find_conda path_world proj_state) = Inr ''/usr/bin/conda''
   \<and> snd (find_conda no_conda_world proj_state) = Inl (Fail ''Failed to find 'conda' executable.'')"
proof -
  have one: "snd (find_conda both_env_world proj_state) = Inr ''/opt/a/bin/conda''"
    using find_conda_sources [of both_env_world proj_state, THEN conjunct1]
    by (simp add: both_env_world_def proj_world_def path_join_def)
  have two: "snd (find_conda proj_world proj_state) = Inr ''/opt/conda/bin/conda''"
    using find_conda_sources [of proj_world proj_state, THEN conjunct2, THEN conjunct1]
    by (simp add: proj_world_def path_join_def)
  have three: "snd (find_conda path_world proj_state) = Inr ''/usr/bin/conda''"
    using find_conda_sources
      [of path_world proj_state, THEN conjunct2, THEN conjunct2, THEN conjunct1]
    by (simp add: path_world_def proj_world_def path_join_def)
  have four: "snd (find_conda no_conda_world proj_state)
      = Inl (Fail ''Failed to find 'conda' executable.'')"
    using find_conda_sources
      [of no_conda_world proj_state, THEN conjunct2, THEN conjunct2, THEN conjunct2,
       THEN conjunct2]
    by (simp add: no_conda_world_def proj_world_def)
  from one two three four show ?thesis by simp
qed

text \<open>
  C4.  The claim is that \<^verbatim>\<open>find_conda\<close> returns the resolved result of the search on the
  PATH when the two variables are not set, and raises only \<^verbatim>\<open>Fail\<close>, when nothing is
  found.  The probe \<^verbatim>\<open>conda -h\<close> is guarded by \<^verbatim>\<open>except subprocess.CalledProcessError\<close>,
  which \<^verbatim>\<open>subprocess.run\<close> without \<^verbatim>\<open>check=True\<close> never raises.  When the conda that the
  search finds cannot be executed, the probe raises \<^verbatim>\<open>OSError\<close>, which is not caught:
  \<^verbatim>\<open>find_conda\<close> neither returns the result of the search nor raises \<^verbatim>\<open>Fail\<close>.
\<close>

theorem find_conda_probe_raises:
  "which broken_path_world ''conda'' = Some ''/usr/bin/conda''
   \<and> find_conda broken_path_world proj_state =
       (proj_state\<lparr>procs := [[''/usr/bin/conda'', ''-h'']]\<rparr>, Inl (OSError ''Exec format error''))"
  by (simp add: find_conda_def run_def broken_path_world_def path_world_def proj_world_def
        proj_state_def path_join_def)

subsection \<open>The cache fingerprint\<close>

lemmas proj_defs = proj_world_def proj_state_def proj_conf_def proj_runner_def ci_yml_def
  ci_doc_def env_runner_def full_runner_def spec_state_def cwd_state_def
  full_dict_def plain_dict_def plain_create_command_def

lemmas fingerprint_defs = python_cache_def hash_file_def load_yaml_def path_join_def
  path_name_def empty_conda_dict_def conda_entry_def

text \<open>
  What \<^verbatim>\<open>hash_file\<close> returns: the digest of the file that has the name of its argument
  in the working directory, whatever the directory of the argument.
\<close>

lemma hash_file_eq_Inr:
  "hash_file w fs file = Inr h \<longleftrightarrow>
     (\<exists>content. fs (path_join (cwd w) (path_name file)) = Some content
        \<and> h = sha1_hexdigest w content)"
  by (auto simp: hash_file_def split: option.splits)

text \<open>It is the digest of its argument when the argument lies in the working directory.\<close>

lemma hash_file_in_cwd:
  assumes "path_join (cwd w) (path_name file) = file" "fs file = Some content"
  shows "hash_file w fs file = Inr (sha1_hexdigest w content)"
  using assms by (simp add: hash_file_def)

lemma full_cache: "\<exists>c. python_cache proj_world (files spec_state) full_runner = Inr c"
  by (simp add: proj_defs fingerprint_defs)

text \<open>
  C5.  Whenever \<^verbatim>\<open>python_cache\<close> returns a fingerprint, its entry \<^verbatim>\<open>conda\<close> is the
  dictionary \<open>d\<close> of the plugin (string keys; the values are strings or lists of
  strings by the types of the fields), which always has the keys \<^verbatim>\<open>env_spec\<close> and \<^verbatim>\<open>env\<close>,
  has \<^verbatim>\<open>deps\<close> exactly when \<^verbatim>\<open>conda_deps\<close> is not empty, \<^verbatim>\<open>spec\<close> and \<^verbatim>\<open>spec_hash\<close> exactly
  when \<^verbatim>\<open>conda_spec\<close> is set, \<^verbatim>\<open>channels\<close> exactly when \<^verbatim>\<open>conda_channels\<close> is set, and
  \<^verbatim>\<open>install_args\<close> exactly when \<^verbatim>\<open>conda_install_args\<close> is set.  A key of the
  configuration is set when its value passes the test \<^verbatim>\<open>if value:\<close> of the source.
\<close>

theorem python_cache_keys:
  assumes "python_cache w fs r = Inr c"
  shows "\<exists>d. c ''conda'' = Some (CondaDict d)
     \<and> env_spec d \<noteq> None \<and> env d \<noteq> None
     \<and> (deps d \<noteq> None \<longleftrightarrow> conda_deps (conf r) \<noteq> [])
     \<and> (spec d \<noteq> None \<longleftrightarrow> truthy (conda_spec (conf r)))
     \<and> (spec_hash d \<noteq> None \<longleftrightarrow> truthy (conda_spec (conf r)))
     \<and> (channels d \<noteq> None \<longleftrightarrow> truthy (conda_channels (conf r)))
     \<and> (install_args d \<noteq> None \<longleftrightarrow> truthy (conda_install_args (conf r)))"
  using assms
  unfolding python_cache_def Let_def
  by (auto simp: bind_e_eq_Inr empty_conda_dict_def split: if_splits)

theorem python_cache_keys_witness:
  "\<exists>c d. python_cache proj_world (files spec_state) full_runner = Inr c
     \<and> c ''conda'' = Some (CondaDict d)
     \<and> env_spec d \<noteq> None \<and> env d \<noteq> None \<and> deps d \<noteq> None \<and> spec d \<noteq> None
     \<and> spec_hash d \<noteq> None \<and> channels d \<noteq> None \<and> install_args d \<noteq> None"
proof -
  obtain c where c: "python_cache proj_world (files spec_state) full_runner = Inr c"
    using full_cache by blast
  have cfg: "conda_deps (conf full_runner) \<noteq> []" "truthy (conda_spec (conf full_runner))"
    "truthy (conda_channels (conf full_runner))"
    "truthy (conda_install_args (conf full_runner))"
    by (simp_all add: proj_defs)
  from python_cache_keys [OF c] cfg c show ?thesis by blast
qed

text \<open>
  The environment recorded in a fingerprint follows a fixed precedence.  If \<^verbatim>\<open>conda_name\<close>
  is set, in the options of the runner or else in the configuration, the fingerprint has
  \<^verbatim>\<open>env_spec\<close> \<^verbatim>\<open>-n\<close> and that name.  Otherwise, if \<^verbatim>\<open>conda_env\<close> is set, it has \<^verbatim>\<open>env_spec\<close>
  \<^verbatim>\<open>-n\<close>, the name under the key \<^verbatim>\<open>name\<close> of the YAML file, the resolved path of the file,
  and what \<^verbatim>\<open>hash_file\<close> returns for that path.  Otherwise it has \<^verbatim>\<open>env_spec\<close> \<^verbatim>\<open>-p\<close> and
  the environment directory.
\<close>

lemma python_cache_env_selection:
  assumes "python_cache w fs r = Inr c"
  shows "\<exists>d. c ''conda'' = Some (CondaDict d) \<and>
     (if truthy (options_conda_name r) then
        env_spec d = Some ''-n'' \<and> env d = options_conda_name r
        \<and> env_path d = None \<and> env_hash d = None
      else if truthy (conda_name (conf r)) then
        env_spec d = Some ''-n'' \<and> env d = conda_name (conf r)
        \<and> env_path d = None \<and> env_hash d = None
      else if truthy (conda_env (conf r)) then
        env_spec d = Some ''-n''
        \<and> (\<exists>doc name. load_yaml w fs (resolve w (value_of (conda_env (conf r)))) = Inr doc
               \<and> yaml_name doc = Some name \<and> env d = Some name)
        \<and> env_path d = Some (resolve w (value_of (conda_env (conf r))))
        \<and> (\<exists>h. hash_file w fs (resolve w (value_of (conda_env (conf r)))) = Inr h
               \<and> env_hash d = Some h)
      else
        env_spec d = Some ''-p'' \<and> env d = Some (env_dir r)
        \<and> env_path d = None \<and> env_hash d = None)"
  using assms
  unfolding python_cache_def Let_def
  by (auto simp: bind_e_eq_Inr empty_conda_dict_def truthy_value_of [symmetric]
           split: if_splits)

text \<open>
  C7.  The claim is that, with \<^verbatim>\<open>conda_env\<close> set and no name, the fingerprint has the name
  of the YAML file, the resolved path of the file and the hash of the file.  For the
  environment file \<^verbatim>\<open>envs/ci.yml\<close> of the project in \<^verbatim>\<open>/proj\<close>, where \<^verbatim>\<open>/proj/ci.yml\<close> is
  another file, the fingerprint has the name and the path of \<^verbatim>\<open>/proj/envs/ci.yml\<close> and the
  hash of \<^verbatim>\<open>/proj/ci.yml\<close>; where there is no \<^verbatim>\<open>/proj/ci.yml\<close>, there is no fingerprint.
\<close>

theorem python_cache_env_hash_of_other_file:
  "options_conda_name env_runner = None \<and> conda_name (conf env_runner) = None
   \<and> conda_env (conf env_runner) = Some ''envs/ci.yml''
   \<and> files cwd_state ''/proj/envs/ci.yml'' = Some ci_yml
   \<and> files cwd_state ''/proj/ci.yml'' = Some ''other''
   \<and> (\<exists>c d. python_cache proj_world (files cwd_state) env_runner = Inr c
          \<and> c ''conda'' = Some (CondaDict d)
          \<and> env_spec d = Some ''-n'' \<and> env d = Some ''ci''
          \<and> env_path d = Some ''/proj/envs/ci.yml''
          \<and> env_hash d = Some (sha1_hexdigest proj_world ''other'')
          \<and> env_hash d \<noteq> Some (sha1_hexdigest proj_world ci_yml))
   \<and> files proj_state ''/proj/envs/ci.yml'' = Some ci_yml
   \<and> files proj_state ''/proj/ci.yml'' = None
   \<and> python_cache proj_world (files proj_state) env_runner = Inl (FileNotFoundError ''ci.yml'')"
  by (simp add: proj_defs fingerprint_defs)

text \<open>
  C6.  The claim is that the hash in the fingerprint is the SHA-1 digest of the content
  of the configured file.  With the environment file \<^verbatim>\<open>envs/ci.yml\<close> of the project in
  \<^verbatim>\<open>/proj\<close>, \<^verbatim>\<open>hash_file\<close> opens \<^verbatim>\<open>ci.yml\<close> in the working directory: when there is no such
  file, \<^verbatim>\<open>python_cache\<close> raises \<^verbatim>\<open>FileNotFoundError\<close>; when there is another file of that
  name, the fingerprint has the digest of that other file.
\<close>

theorem hash_file_opens_name_in_cwd:
  "python_cache proj_world (files proj_state) env_runner = Inl (FileNotFoundError ''ci.yml'')
   \<and> (\<exists>c d. python_cache proj_world (files cwd_state) env_runner = Inr c
          \<and> c ''conda'' = Some (CondaDict d)
          \<and> files cwd_state ''/proj/envs/ci.yml'' = Some ci_yml
          \<and> env_path d = Some ''/proj/envs/ci.yml''
          \<and> env_hash d = Some (sha1_hexdigest proj_world ''other'')
          \<and> sha1_hexdigest proj_world ''other'' \<noteq> sha1_hexdigest proj_world ci_yml)"
  by (simp add: proj_defs fingerprint_defs)

subsection \<open>Command lines\<close>

lemmas command_defs = creation_command_def find_conda_def get_python_env_version_def
  match_base_python_def match_minor_def match_micro_def is_digit_def
  generate_create_command_def generate_env_create_command_def quoted_def path_parent_def
  bind_s_def lift_e_def Let_def

text \<open>A loop \<^verbatim>\<open>for x in xs: cmd += f(x)\<close> appends the pieces in order.\<close>

lemma foldl_append_concat: "foldl (\<lambda>acc x. acc @ f x) acc xs = acc @ concat (map f xs)"
  by (induction xs arbitrary: acc) simp_all

lemma find_conda_frame:
  assumes "find_conda w s = (s0, res)"
  shows "files s0 = files s \<and> created s0 = created s"
  using assms
  by (auto simp: find_conda_def Let_def run_def split: if_splits sum.splits error.splits)

lemma python_cache_create_args:
  assumes "python_cache w fs r = Inr c" "conda_entry c = Inr d"
  shows "value_of (create_args d) = value_of (conda_create_args (conf r))"
  using assms
  unfolding python_cache_def Let_def
  by (auto simp: bind_e_eq_Inr empty_conda_dict_def conda_entry_def truthy_def split: if_splits)

lemma generate_create_command_eq_Inr:
  "generate_create_command exe py d = Inr (cmd, td) \<longleftrightarrow>
     (\<exists>es e. env_spec d = Some es \<and> env d = Some e \<and> td = NoTearDown \<and>
        cmd = quoted exe @ '' create '' @ es @ '' '' @ quoted e @ '' '' @ py @ '' --yes --quiet''
              @ concat (map (\<lambda>arg. '' '' @ quoted arg) (value_of (create_args d))))"
  by (auto simp: generate_create_command_def bind_e_eq_Inr Let_def foldl_append_concat)

lemma generate_env_create_command_eq_Inr:
  "generate_env_create_command w exe py d s = (s1, Inr (cmd, td)) \<longleftrightarrow>
     (\<exists>p doc dependencies.
        env_path d = Some p \<and> load_yaml w (files s) (resolve w p) = Inr doc
        \<and> yaml_dependencies doc = Some dependencies
        \<and> cmd = quoted exe @ '' env create --file ''
                @ quoted (temp_path w (path_parent (resolve w p)) ''tox_conda_tmp'' ''.yaml'')
                @ '' --quiet --force''
        \<and> td = Unlink (temp_path w (path_parent (resolve w p)) ''tox_conda_tmp'' ''.yaml'')
        \<and> s1 = s\<lparr>files := (files s)
                  (temp_path w (path_parent (resolve w p)) ''tox_conda_tmp'' ''.yaml'' \<mapsto>
                   yaml_dump w (doc\<lparr>yaml_dependencies := Some (dependencies @ [YStr py])\<rparr>))\<rparr>)"
  by (auto simp: generate_env_create_command_def bind_s_eq_Inr Let_def)

lemma creation_command_eq_Inr:
  "creation_command w r s = (s1, Inr (exe, py, d, cmd, td)) \<longleftrightarrow>
     (\<exists>s0 v c. find_conda w s = (s0, Inr exe) \<and> get_python_env_version w r = Inr v
        \<and> py = ''python='' @ v
        \<and> python_cache w (files s0) r = Inr c \<and> conda_entry c = Inr d
        \<and> (if truthy (conda_env (conf r))
            then generate_env_create_command w exe py d s0 = (s1, Inr (cmd, td))
            else s1 = s0 \<and> generate_create_command exe py d = Inr (cmd, td)))"
  by (auto simp: creation_command_def bind_s_eq_Inr bind_e_eq_Inr Let_def split: if_splits)


lemma run_tear_down_procs: "procs (fst (run_tear_down td s)) = procs s"
  by (simp add: run_tear_down_def split: tear_down.splits)

lemma generate_install_command_nonempty:
  "generate_install_command exe py d = Inr (Some icmd) \<Longrightarrow> icmd \<noteq> []"
  by (auto simp: generate_install_command_def bind_e_eq_Inr Let_def quoted_def
        foldl_append_concat split: if_splits option.splits)

lemma create_python_env_after:
  assumes "creation_command w r s = (s1, Inr (exe, py, d, cmd, td))"
  shows "create_python_env w r s =
     bind_s (try_finally (run_create w r cmd) (run_tear_down td)) (\<lambda>_.
     bind_s (lift_e (generate_install_command exe py d)) (\<lambda>install_command.
       if truthy install_command then run_install w (value_of install_command)
       else lift_e (Inr ()))) s1"
  using assms by (simp add: create_python_env_def bind_s_def)

text \<open>The sample runners, evaluated.\<close>

lemma full_python_cache:
  "bind_e (python_cache proj_world (files spec_state) full_runner) conda_entry = Inr full_dict"
  by (simp add: proj_defs fingerprint_defs)

lemma plain_creation_command:
  "creation_command proj_world proj_runner proj_state =
     (proj_state, Inr (''/opt/conda/bin/conda'', ''python=3.9'', plain_dict,
                       plain_create_command, NoTearDown))"
  by (simp add: proj_defs fingerprint_defs command_defs)

lemma failing_creation_command:
  "creation_command failing_world proj_runner proj_state =
     (proj_state, Inr (''/opt/conda/bin/conda'', ''python=3.9'', plain_dict,
                       plain_create_command, NoTearDown))"
  by (simp add: failing_world_def proj_defs fingerprint_defs command_defs)

lemma plain_create_args:
  "posix_split Between [] plain_create_command =
     Inr [''/opt/conda/bin/conda'', ''create'', ''-p'', ''/proj/.tox/py39'', ''python=3.9'',
          ''--yes'', ''--quiet'']"
  by (simp add: plain_create_command_def quoted_def is_blank_def)

lemma full_creation_command:
  "creation_command install_failing_world full_runner spec_state =
     (spec_state, Inr (''/opt/conda/bin/conda'', ''python=3.9'', full_dict,
                       full_create_command, NoTearDown))"
  by (simp add: install_failing_world_def full_create_command_def proj_defs fingerprint_defs
        command_defs)

lemma full_create_args:
  "posix_split Between [] full_create_command =
     Inr [''/opt/conda/bin/conda'', ''create'', ''-p'', ''/proj/.tox/py39'', ''python=3.9'',
          ''--yes'', ''--quiet'', ''--no-default-packages'']"
  by (simp add: full_create_command_def quoted_def is_blank_def)

lemma full_install_args:
  "posix_split Between [] full_install_command =
     Inr [''/opt/conda/bin/conda'', ''install'', ''--quiet'', ''--yes'', ''-p'',
          ''/proj/.tox/py39'', ''--channel'', ''conda-forge'', ''--override-channels'',
          ''python=3.9'', ''numpy'', ''scipy>=1.0'', ''--file=spec.txt'']"
  by (simp add: full_install_command_def quoted_def is_blank_def)

lemma full_install:
  "generate_install_command ''/opt/conda/bin/conda'' ''python=3.9'' full_dict =
     Inr (Some full_install_command)"
  by (simp add: generate_install_command_def full_dict_def full_install_command_def Let_def)

lemma plain_install:
  "generate_install_command ''/opt/conda/bin/conda'' ''python=3.9'' plain_dict = Inr None"
  by (simp add: generate_install_command_def plain_dict_def empty_conda_dict_def)

text \<open>
  The creation command.  Without \<^verbatim>\<open>conda_env\<close> it is
  \<^verbatim>\<open>'<conda>' create <env_spec> '<env>' python=<version> --yes --quiet\<close> followed by the
  entries of \<^verbatim>\<open>conda_create_args\<close> in order, each in single quotes.  With \<^verbatim>\<open>conda_env\<close>,
  whenever a command is generated, it is
  \<^verbatim>\<open>'<conda>' env create --file '<tmp>' --quiet --force\<close>, and the temporary file holds the
  dump of the environment file with \<^verbatim>\<open>python=<version>\<close> appended to its dependencies.
\<close>

lemma creation_command_create:
  assumes "\<not> truthy (conda_env (conf r))"
      and "creation_command w r s = (s1, Inr (exe, py, d, cmd, td))"
  shows "\<exists>es e v. env_spec d = Some es \<and> env d = Some e
           \<and> get_python_env_version w r = Inr v
           \<and> cmd = quoted exe @ '' create '' @ es @ '' '' @ quoted e
                   @ '' python='' @ v @ '' --yes --quiet''
                   @ concat (map (\<lambda>arg. '' '' @ quoted arg)
                               (value_of (conda_create_args (conf r))))"
  using assms
  by (auto simp: creation_command_eq_Inr generate_create_command_eq_Inr
        python_cache_create_args)

lemma creation_command_env_create:
  assumes "truthy (conda_env (conf r))"
      and "creation_command w r s = (s1, Inr (exe, py, d, cmd, td))"
  shows "\<exists>p doc dependencies tmp.
           env_path d = Some p
           \<and> load_yaml w (files s) (resolve w p) = Inr doc
           \<and> yaml_dependencies doc = Some dependencies
           \<and> tmp = temp_path w (path_parent (resolve w p)) ''tox_conda_tmp'' ''.yaml''
           \<and> cmd = quoted exe @ '' env create --file '' @ quoted tmp @ '' --quiet --force''
           \<and> files s1 tmp =
               Some (yaml_dump w (doc\<lparr>yaml_dependencies := Some (dependencies @ [YStr py])\<rparr>))"
  using assms
  by (auto simp: creation_command_eq_Inr generate_env_create_command_eq_Inr
        dest: find_conda_frame)

text \<open>
  C1.  The claim is that every configuration with \<^verbatim>\<open>conda_env\<close> leads to the command
  \<^verbatim>\<open>conda env create\<close>.  When \<^verbatim>\<open>conda_name\<close> is set as well, the fingerprint records the
  name and no \<^verbatim>\<open>env_path\<close>, and \<^verbatim>\<open>_generate_env_create_command\<close>, which reads
  \<^verbatim>\<open>conda_cache_conf["env_path"]\<close>, raises \<^verbatim>\<open>KeyError\<close>: no command is built and no
  subprocess is started.
\<close>

theorem create_python_env_name_and_env:
  "truthy (conda_env (conf named_env_runner))
   \<and> create_python_env proj_world named_env_runner cwd_state
       = (cwd_state, Inl (KeyError ''env_path''))"
  by (simp add: named_env_runner_def proj_defs fingerprint_defs command_defs
        create_python_env_def)


text \<open>
  C2.  \<^verbatim>\<open>_generate_install_command\<close> returns \<^verbatim>\<open>None\<close> exactly when the fingerprint has
  neither \<^verbatim>\<open>deps\<close> nor \<^verbatim>\<open>spec\<close>.  For a fingerprint with \<^verbatim>\<open>env_spec\<close> and \<^verbatim>\<open>env\<close> (which every
  fingerprint of \<^verbatim>\<open>python_cache\<close> has) and with \<^verbatim>\<open>deps\<close> or \<^verbatim>\<open>spec\<close>, the command is
  \<^verbatim>\<open>'<conda>' install --quiet --yes <env_spec> '<env>'\<close> followed by \<^verbatim>\<open>--channel <c>\<close> for
  each channel, each installation argument, the pin \<^verbatim>\<open>python=<version>\<close>, each
  dependency, and \<^verbatim>\<open>--file=<spec>\<close> when there is a spec file.  When it returns \<^verbatim>\<open>None\<close>,
  the only subprocess that \<^verbatim>\<open>create_python_env\<close> starts after the creation command has
  been generated is the creation command itself.
\<close>

theorem generate_install_command_shape:
  "(generate_install_command exe py d = Inr None \<longleftrightarrow> deps d = None \<and> spec d = None)
   \<and> (env_spec d = Some es \<longrightarrow> env d = Some e \<longrightarrow> \<not> (deps d = None \<and> spec d = None) \<longrightarrow>
        generate_install_command exe py d =
          Inr (Some (quoted exe @ '' install --quiet --yes '' @ es @ '' '' @ quoted e
             @ concat (map (\<lambda>channel. '' --channel '' @ channel) (value_of (channels d)))
             @ concat (map (\<lambda>arg. '' '' @ arg) (value_of (install_args d)))
             @ '' '' @ py
             @ concat (map (\<lambda>dep. '' '' @ dep) (value_of (deps d)))
             @ (case spec d of None \<Rightarrow> [] | Some sp \<Rightarrow> '' --file='' @ sp))))
   \<and> (creation_command w r s = (s1, Inr (exe, py, d, cmd, td)) \<longrightarrow>
        generate_install_command exe py d = Inr None \<longrightarrow>
        procs (fst (create_python_env w r s)) =
          (case shlex_split w cmd of Inl _ \<Rightarrow> procs s1 | Inr args \<Rightarrow> procs s1 @ [args]))"
proof (intro conjI impI)
  show "generate_install_command exe py d = Inr None \<longleftrightarrow> deps d = None \<and> spec d = None"
    by (auto simp: generate_install_command_def bind_e_def getitem_def Let_def
          split: option.splits)
next
  assume "env_spec d = Some es" "env d = Some e" "\<not> (deps d = None \<and> spec d = None)"
  then show "generate_install_command exe py d =
          Inr (Some (quoted exe @ '' install --quiet --yes '' @ es @ '' '' @ quoted e
             @ concat (map (\<lambda>channel. '' --channel '' @ channel) (value_of (channels d)))
             @ concat (map (\<lambda>arg. '' '' @ arg) (value_of (install_args d)))
             @ '' '' @ py
             @ concat (map (\<lambda>dep. '' '' @ dep) (value_of (deps d)))
             @ (case spec d of None \<Rightarrow> [] | Some sp \<Rightarrow> '' --file='' @ sp)))"
    by (simp add: generate_install_command_def Let_def foldl_append_concat
          split: option.splits)
next
  assume cc: "creation_command w r s = (s1, Inr (exe, py, d, cmd, td))"
    and none: "generate_install_command exe py d = Inr None"
  have "procs (fst (try_finally (run_create w r cmd) (run_tear_down td) s1)) =
          (case shlex_split w cmd of Inl _ \<Rightarrow> procs s1 | Inr args \<Rightarrow> procs s1 @ [args])"
    by (auto simp: try_finally_def run_create_def run_checked_def run_def run_tear_down_def
          split: sum.splits prod.splits tear_down.splits if_splits error.splits)
  moreover have "procs (fst (create_python_env w r s)) =
      procs (fst (try_finally (run_create w r cmd) (run_tear_down td) s1))"
    using none
    by (auto simp: create_python_env_after [OF cc] bind_s_def lift_e_def
          split: prod.splits sum.splits)
  ultimately show "procs (fst (create_python_env w r s)) =
          (case shlex_split w cmd of Inl _ \<Rightarrow> procs s1 | Inr args \<Rightarrow> procs s1 @ [args])"
    by simp
qed


theorem generate_install_command_shape_witness:
  "generate_install_command ''/opt/conda/bin/conda'' ''python=3.9'' full_dict =
     Inr (Some (quoted ''/opt/conda/bin/conda'' @ '' install --quiet --yes -p ''
                @ quoted ''/proj/.tox/py39''
                @ '' --channel conda-forge --override-channels python=3.9 numpy scipy>=1.0''
                @ '' --file=spec.txt''))
   \<and> generate_install_command ''/opt/conda/bin/conda'' ''python=3.9'' plain_dict = Inr None
   \<and> procs (fst (create_python_env proj_world proj_runner proj_state)) =
       [[''/opt/conda/bin/conda'', ''create'', ''-p'', ''/proj/.tox/py39'', ''python=3.9'',
         ''--yes'', ''--quiet'']]"
proof -
  have full: "env_spec full_dict = Some ''-p''" "env full_dict = Some ''/proj/.tox/py39''"
    "\<not> (deps full_dict = None \<and> spec full_dict = None)"
    by (simp_all add: full_dict_def)
  have install: "generate_install_command ''/opt/conda/bin/conda'' ''python=3.9'' full_dict =
     Inr (Some (quoted ''/opt/conda/bin/conda'' @ '' install --quiet --yes -p ''
                @ quoted ''/proj/.tox/py39''
                @ '' --channel conda-forge --override-channels python=3.9 numpy scipy>=1.0''
                @ '' --file=spec.txt''))"
    using generate_install_command_shape [THEN conjunct2, THEN conjunct1, rule_format, OF full]
    by (simp add: full_dict_def)
  have none: "generate_install_command ''/opt/conda/bin/conda'' ''python=3.9'' plain_dict
      = Inr None"
    using generate_install_command_shape
      [THEN conjunct1, of "''/opt/conda/bin/conda''" "''python=3.9''" plain_dict]
    by (simp add: plain_dict_def empty_conda_dict_def)
  have split: "shlex_split proj_world plain_create_command =
     Inr [''/opt/conda/bin/conda'', ''create'', ''-p'', ''/proj/.tox/py39'', ''python=3.9'',
          ''--yes'', ''--quiet'']"
    using plain_create_args by (simp add: proj_world_def)
  have "procs proj_state = []"
    by (simp add: proj_state_def)
  with generate_install_command_shape
      [THEN conjunct2, THEN conjunct2, rule_format, OF plain_creation_command none] split
  have "procs (fst (create_python_env proj_world proj_runner proj_state)) =
       [[''/opt/conda/bin/conda'', ''create'', ''-p'', ''/proj/.tox/py39'', ''python=3.9'',
         ''--yes'', ''--quiet'']]"
    by simp
  with install none show ?thesis by simp
qed


subsection \<open>Exit codes\<close>

lemma creation_command_tear_down:
  assumes "creation_command w r s = (s1, Inr (exe, py, d, cmd, td))" "files s2 = files s1"
  shows "snd (run_tear_down td s2) = Inr ()"
  using assms
  by (auto simp: creation_command_eq_Inr generate_create_command_eq_Inr
        generate_env_create_command_eq_Inr run_tear_down_def split: if_splits)

lemma run_create_result:
  assumes "shlex_split w cmd = Inr args" "subprocess_run w args = Inr cp"
  shows "run_create w r cmd s =
     (s\<lparr>procs := procs s @ [args]\<rparr>,
      if returncode cp \<noteq> 0
      then Inl (Fail (''Failed to create '' @ quoted (env_dir r)
                      @ '' conda environment. Error: ''
                      @ str_called_process_error w args (returncode cp)))
      else Inr ())"
  using assms by (simp add: run_create_def run_checked_def run_def)

lemma run_install_result:
  assumes "shlex_split w cmd = Inr args" "subprocess_run w args = Inr cp"
  shows "run_install w cmd s =
     (s\<lparr>procs := procs s @ [args]\<rparr>,
      if returncode cp \<noteq> 0
      then Inl (Fail (''Failed to install dependencies in conda environment. Error: ''
                      @ str_called_process_error w args (returncode cp)))
      else Inr ())"
  using assms by (simp add: run_install_def run_checked_def run_def)

lemma try_finally_result:
  assumes "body s = (s1, res)" "snd (handler s1) = Inr ()"
  shows "snd (try_finally body handler s) = res"
  using assms by (auto simp: try_finally_def split: prod.splits sum.splits)

text \<open>
  C3.  Once the creation command has been generated and split, and its subprocess has
  run to a completed process: if the return code is not zero, \<^verbatim>\<open>create_python_env\<close>
  raises \<^verbatim>\<open>Fail\<close> with the message \<^verbatim>\<open>Failed to create '<env_dir>' conda environment\<close>; if it
  is zero and there is nothing to install, no error is raised; if it is zero and there is
  an installation command, whose subprocess has run to a completed process, a nonzero
  return code of the installation raises \<^verbatim>\<open>Fail\<close> with the message
  \<^verbatim>\<open>Failed to install dependencies in conda environment\<close>, and zero raises nothing.
\<close>

theorem create_python_env_exit_codes:
  assumes cc: "creation_command w r s = (s1, Inr (exe, py, d, cmd, td))"
      and sp: "shlex_split w cmd = Inr args"
      and ran: "subprocess_run w args = Inr cp"
  shows "(returncode cp \<noteq> 0 \<longrightarrow>
            snd (create_python_env w r s) =
              Inl (Fail (''Failed to create '' @ quoted (env_dir r)
                         @ '' conda environment. Error: ''
                         @ str_called_process_error w args (returncode cp))))
       \<and> (returncode cp = 0 \<longrightarrow>
            generate_install_command exe py d = Inr None \<longrightarrow>
            snd (create_python_env w r s) = Inr ())
       \<and> (\<forall>icmd iargs icp.
            returncode cp = 0 \<longrightarrow>
            generate_install_command exe py d = Inr (Some icmd) \<longrightarrow>
            shlex_split w icmd = Inr iargs \<longrightarrow>
            subprocess_run w iargs = Inr icp \<longrightarrow>
            snd (create_python_env w r s) =
              (if returncode icp \<noteq> 0
               then Inl (Fail (''Failed to install dependencies in conda environment. Error: ''
                               @ str_called_process_error w iargs (returncode icp)))
               else Inr ()))"
proof -
  let ?s2 = "s1\<lparr>procs := procs s1 @ [args]\<rparr>"
  let ?res = "if returncode cp \<noteq> 0
      then Inl (Fail (''Failed to create '' @ quoted (env_dir r)
                      @ '' conda environment. Error: ''
                      @ str_called_process_error w args (returncode cp)))
      else Inr ()"
  have td: "snd (run_tear_down td ?s2) = Inr ()"
    using creation_command_tear_down [OF cc, of ?s2] by simp
  have tf: "snd (try_finally (run_create w r cmd) (run_tear_down td) s1) = ?res"
    using try_finally_result
      [where body = "run_create w r cmd" and handler = "run_tear_down td" and s = s1,
       OF run_create_result [OF sp ran] td] .
  have failed: "snd (create_python_env w r s) =
              Inl (Fail (''Failed to create '' @ quoted (env_dir r)
                         @ '' conda environment. Error: ''
                         @ str_called_process_error w args (returncode cp)))"
    if "returncode cp \<noteq> 0"
    using that tf
    by (auto simp: create_python_env_after [OF cc] bind_s_def split: prod.splits sum.splits)
  have no_install: "snd (create_python_env w r s) = Inr ()"
    if "returncode cp = 0" "generate_install_command exe py d = Inr None"
    using that tf
    by (auto simp: create_python_env_after [OF cc] bind_s_def lift_e_def
          split: prod.splits sum.splits)
  have install: "snd (create_python_env w r s) =
              (if returncode icp \<noteq> 0
               then Inl (Fail (''Failed to install dependencies in conda environment. Error: ''
                               @ str_called_process_error w iargs (returncode icp)))
               else Inr ())"
    if ok: "returncode cp = 0"
      and ic: "generate_install_command exe py d = Inr (Some icmd)"
      and isp: "shlex_split w icmd = Inr iargs"
      and iran: "subprocess_run w iargs = Inr icp"
    for icmd iargs icp
  proof -
    have "icmd \<noteq> []"
      using generate_install_command_nonempty [OF ic] .
    with tf ok ic show ?thesis
      by (auto simp: create_python_env_after [OF cc] bind_s_def lift_e_def
            run_install_result [OF isp iran] split: prod.splits sum.splits)
  qed
  show ?thesis
    by (intro conjI allI impI) (rule failed no_install install; assumption)+
qed

theorem create_python_env_exit_codes_witness:
  "snd (create_python_env failing_world proj_runner proj_state) =
     Inl (Fail (''Failed to create '' @ quoted ''/proj/.tox/py39''
                @ '' conda environment. Error: ''
                @ str_called_process_error failing_world
                    [''/opt/conda/bin/conda'', ''create'', ''-p'', ''/proj/.tox/py39'',
                     ''python=3.9'', ''--yes'', ''--quiet''] 1))
   \<and> snd (create_python_env proj_world proj_runner proj_state) = Inr ()
   \<and> snd (create_python_env install_failing_world full_runner spec_state) =
     Inl (Fail (''Failed to install dependencies in conda environment. Error: ''
                @ str_called_process_error install_failing_world
                    [''/opt/conda/bin/conda'', ''install'', ''--quiet'', ''--yes'', ''-p'',
                     ''/proj/.tox/py39'', ''--channel'', ''conda-forge'',
                     ''--override-channels'', ''python=3.9'', ''numpy'', ''scipy>=1.0'',
                     ''--file=spec.txt''] 2))"
proof -
  have sp1: "shlex_split failing_world plain_create_command =
     Inr [''/opt/conda/bin/conda'', ''create'', ''-p'', ''/proj/.tox/py39'', ''python=3.9'',
          ''--yes'', ''--quiet'']"
    using plain_create_args by (simp add: failing_world_def proj_world_def)
  have sp2: "shlex_split proj_world plain_create_command =
     Inr [''/opt/conda/bin/conda'', ''create'', ''-p'', ''/proj/.tox/py39'', ''python=3.9'',
          ''--yes'', ''--quiet'']"
    using plain_create_args by (simp add: proj_world_def)
  have sp3: "shlex_split install_failing_world full_create_command =
     Inr [''/opt/conda/bin/conda'', ''create'', ''-p'', ''/proj/.tox/py39'', ''python=3.9'',
          ''--yes'', ''--quiet'', ''--no-default-packages'']"
    using full_create_args by (simp add: install_failing_world_def proj_world_def)
  have sp4: "shlex_split install_failing_world full_install_command =
     Inr [''/opt/conda/bin/conda'', ''install'', ''--quiet'', ''--yes'', ''-p'',
          ''/proj/.tox/py39'', ''--channel'', ''conda-forge'', ''--override-channels'',
          ''python=3.9'', ''numpy'', ''scipy>=1.0'', ''--file=spec.txt'']"
    using full_install_args by (simp add: install_failing_world_def proj_world_def)
  have one: "snd (create_python_env failing_world proj_runner proj_state) =
     Inl (Fail (''Failed to create '' @ quoted ''/proj/.tox/py39''
                @ '' conda environment. Error: ''
                @ str_called_process_error failing_world
                    [''/opt/conda/bin/conda'', ''create'', ''-p'', ''/proj/.tox/py39'',
                     ''python=3.9'', ''--yes'', ''--quiet''] 1))"
    using create_python_env_exit_codes
      [OF failing_creation_command sp1, of "\<lparr>returncode = 1, stdout = []\<rparr>", THEN conjunct1]
    by (simp add: failing_world_def proj_world_def proj_runner_def)
  have two: "snd (create_python_env proj_world proj_runner proj_state) = Inr ()"
    using create_python_env_exit_codes
      [OF plain_creation_command sp2, of "\<lparr>returncode = 0, stdout = []\<rparr>",
       THEN conjunct2, THEN conjunct1] plain_install
    by (simp add: proj_world_def)
  have three: "snd (create_python_env install_failing_world full_runner spec_state) =
     Inl (Fail (''Failed to install dependencies in conda environment. Error: ''
                @ str_called_process_error install_failing_world
                    [''/opt/conda/bin/conda'', ''install'', ''--quiet'', ''--yes'', ''-p'',
                     ''/proj/.tox/py39'', ''--channel'', ''conda-forge'',
                     ''--override-channels'', ''python=3.9'', ''numpy'', ''scipy>=1.0'',
                     ''--file=spec.txt''] 2))"
    using create_python_env_exit_codes
      [OF full_creation_command sp3, of "\<lparr>returncode = 0, stdout = []\<rparr>",
       THEN conjunct2, THEN conjunct2, rule_format,
       OF _ _ full_install sp4, of "\<lparr>returncode = 2, stdout = []\<rparr>"]
    by (simp add: install_failing_world_def proj_world_def)
  from one two three show ?thesis by simp
qed


subsection \<open>Running commands in the environment\<close>

text \<open>
  C8.  \<^verbatim>\<open>build_instance\<close> returns an instance exactly when conda is found, the fingerprint
  is computed and the prefix \<^verbatim>\<open>'<conda>' run <env_spec> '<env>' --live-stream\<close> is split
  into tokens; the request of the instance then has the tokens of the prefix followed by
  the command of the original request, and the \<^verbatim>\<open>cwd\<close>, \<^verbatim>\<open>env\<close>, \<^verbatim>\<open>stdin\<close>, \<^verbatim>\<open>run_id\<close> and
  \<^verbatim>\<open>allow\<close> of the original request.
\<close>

theorem build_instance_request:
  "build_instance w r request options out_w err_w s = (s', Inr inst) \<longleftrightarrow>
     (\<exists>exe c d es e prefix.
        find_conda w s = (s', Inr exe)
        \<and> python_cache w (files s') r = Inr c \<and> conda_entry c = Inr d
        \<and> env_spec d = Some es \<and> env d = Some e
        \<and> shlex_split w (quoted exe @ '' run '' @ es @ '' '' @ quoted e @ '' --live-stream'')
            = Inr prefix
        \<and> inst = \<lparr>inst_request =
                    \<lparr>req_cmd = prefix @ req_cmd request, req_cwd = req_cwd request,
                     req_env = req_env request, req_stdin = req_stdin request,
                     req_run_id = req_run_id request, req_allow = req_allow request\<rparr>,
                  inst_options = options, inst_out = out_w, inst_err = err_w\<rparr>)"
  by (auto simp: build_instance_def get_conda_command_prefix_def bind_s_eq_Inr Let_def)


lemma plain_find_conda:
  "find_conda proj_world proj_state = (proj_state, Inr ''/opt/conda/bin/conda'')"
  by (simp add: find_conda_def proj_defs path_join_def)

lemma plain_python_cache:
  "python_cache proj_world (files proj_state) proj_runner =
     Inr ((map_option Host \<circ> host_cache proj_world)(''conda'' \<mapsto> CondaDict plain_dict))"
  by (simp add: proj_defs fingerprint_defs)

lemma plain_run_prefix:
  "shlex_split proj_world
     (quoted ''/opt/conda/bin/conda'' @ '' run '' @ ''-p'' @ '' '' @ quoted ''/proj/.tox/py39''
      @ '' --live-stream'') =
   Inr [''/opt/conda/bin/conda'', ''run'', ''-p'', ''/proj/.tox/py39'', ''--live-stream'']"
  by (simp add: proj_world_def quoted_def is_blank_def)

theorem build_instance_request_witness:
  "build_instance proj_world proj_runner pytest_request () () () proj_state =
     (proj_state,
      Inr \<lparr>inst_request =
             \<lparr>req_cmd = [''/opt/conda/bin/conda'', ''run'', ''-p'', ''/proj/.tox/py39'',
                         ''--live-stream'', ''pytest'', ''-q''],
              req_cwd = ''/proj'', req_env = [''PATH'' \<mapsto> ''/usr/bin''], req_stdin = OFF,
              req_run_id = ''commands[0]'', req_allow = None\<rparr>,
            inst_options = (), inst_out = (), inst_err = ()\<rparr>)"
proof -
  have d: "conda_entry ((map_option Host \<circ> host_cache proj_world)
             (''conda'' \<mapsto> CondaDict plain_dict)) = Inr plain_dict"
    by (simp add: conda_entry_def)
  have keys: "env_spec plain_dict = Some ''-p''" "env plain_dict = Some ''/proj/.tox/py39''"
    by (simp_all add: plain_dict_def)
  show ?thesis
    by (rule build_instance_request [THEN iffD2])
       (use plain_find_conda plain_python_cache d keys plain_run_prefix
         in \<open>auto simp: pytest_request_def\<close>)
qed

subsection \<open>Checking that the environment exists\<close>










subsection \<open>FilteredInfo\<close>

lemma pop_all_dict:
  assumes "a < length st" "st ! a = PyDict m"
  shows "pop_all st a ks = Inr (st[a := PyDict (\<lambda>k. if k \<in> set ks then None else m k)])"
  using assms
proof (induction ks arbitrary: st m)
  case Nil
  then show ?case
    by (simp add: list_update_same_conv [THEN iffD2])
next
  case (Cons k ks)
  have "pop st a k = Inr (st[a := PyDict (m(k := None))])"
    using Cons.prems by (simp add: pop_def)
  moreover have "pop_all (st[a := PyDict (m(k := None))]) a ks =
      Inr (st[a := PyDict (m(k := None)),
              a := PyDict (\<lambda>x. if x \<in> set ks then None else (m(k := None)) x)])"
  proof (rule Cons.IH)
    show "a < length (st[a := PyDict (m(k := None))])"
      using Cons.prems by simp
    show "st[a := PyDict (m(k := None))] ! a = PyDict (m(k := None))"
      using Cons.prems(1) by (rule nth_list_update_eq)
  qed
  moreover have "(\<lambda>x. if x \<in> set ks then None else (m(k := None)) x) =
      (\<lambda>x. if x \<in> set (k # ks) then None else m x)"
    by auto
  ultimately show ?case by simp
qed

lemma pop_all_frame:
  assumes "pop_all st a ks = Inr st'"
  shows "length st' = length st \<and> (\<forall>i. i \<noteq> a \<longrightarrow> st' ! i = st ! i)"
  using assms
proof (induction ks arbitrary: st)
  case Nil
  then show ?case by simp
next
  case (Cons k ks)
  then obtain st1 where p: "pop st a k = Inr st1" and rest: "pop_all st1 a ks = Inr st'"
    by (auto simp: bind_e_eq_Inr)
  from p have "length st1 = length st \<and> (\<forall>i. i \<noteq> a \<longrightarrow> st1 ! i = st ! i)"
    by (auto simp: pop_def split: pyvalue.splits)
  with Cons.IH [OF rest] show ?case by simp
qed

lemma compare_frame:
  assumes "compare base self st v section sub_section = Inr (st', v', rv)"
  shows "take (length st) st' = st \<and> rv = base (info self) st' v' section sub_section"
proof -
  have "take (length st) st2 = st"
    if "pop_all (st @ [x]) (length st) ks = Inr st2" for st2 x ks
  proof -
    from pop_all_frame [OF that]
    have len: "length st2 = Suc (length st)"
      and same: "\<forall>i. i \<noteq> length st \<longrightarrow> st2 ! i = (st @ [x]) ! i"
      by simp_all
    show ?thesis
      by (rule nth_equalityI) (use len same in \<open>auto simp: nth_append\<close>)
  qed
  with assms show ?thesis
    by (auto simp: compare_def bind_e_eq_Inr Let_def split: if_splits pyvalue.splits)
qed

text \<open>
  What \<open>compare\<close> does for an object \<open>v\<close> of the store.  When \<^verbatim>\<open>filter_section\<close> is set
  and is not the compared section, the value is handed to the base comparison as it is.
  Otherwise a dictionary is copied, the copy loses every key of \<^verbatim>\<open>filter_keys\<close>, and the
  copy is handed on; a value without \<^verbatim>\<open>copy\<close> is handed on as it is.  Whenever \<open>compare\<close>
  returns, every object that the store had before, the caller's value among them, is
  what it was, and the result is that of the base comparison on the object handed on.
\<close>

lemma compare_filters_copy:
  assumes "v < length st"
  shows
   "(\<not> (filter_section self = None \<or> filter_section self = Some section) \<longrightarrow>
       compare base self st v section sub_section =
         Inr (st, v, base (info self) st v section sub_section))
    \<and> (filter_section self = None \<or> filter_section self = Some section \<longrightarrow>
       (\<forall>m. st ! v = PyDict m \<longrightarrow>
          compare base self st v section sub_section =
            Inr (st @ [PyDict (\<lambda>k. if k \<in> set (value_of (filter_keys self)) then None else m k)],
                 length st,
                 base (info self)
                   (st @ [PyDict (\<lambda>k. if k \<in> set (value_of (filter_keys self)) then None
                                       else m k)])
                   (length st) section sub_section)))
    \<and> (\<forall>x. st ! v = PyAtom x \<longrightarrow>
          compare base self st v section sub_section =
            Inr (st, v, base (info self) st v section sub_section))
    \<and> (\<forall>st' v' rv. compare base self st v section sub_section = Inr (st', v', rv) \<longrightarrow>
          take (length st) st' = st \<and> st' ! v = st ! v
          \<and> rv = base (info self) st' v' section sub_section)"
proof -
  have skip: "compare base self st v section sub_section =
         Inr (st, v, base (info self) st v section sub_section)"
    if "\<not> (filter_section self = None \<or> filter_section self = Some section)"
    using that by (auto simp: compare_def)
  have dict: "compare base self st v section sub_section =
            Inr (st @ [PyDict (\<lambda>k. if k \<in> set (value_of (filter_keys self)) then None else m k)],
                 length st,
                 base (info self)
                   (st @ [PyDict (\<lambda>k. if k \<in> set (value_of (filter_keys self)) then None
                                       else m k)])
                   (length st) section sub_section)"
    if applies: "filter_section self = None \<or> filter_section self = Some section"
      and d: "st ! v = PyDict m" for m
  proof -
    have "pop_all (st @ [PyDict m]) (length st) (value_of (filter_keys self)) =
      Inr (st @ [PyDict (\<lambda>k. if k \<in> set (value_of (filter_keys self)) then None else m k)])"
      using pop_all_dict [of "length st" "st @ [PyDict m]" m "value_of (filter_keys self)"]
      by simp
    with applies d show ?thesis
      by (auto simp: compare_def Let_def)
  qed
  have frame: "take (length st) st' = st \<and> st' ! v = st ! v
          \<and> rv = base (info self) st' v' section sub_section"
    if c: "compare base self st v section sub_section = Inr (st', v', rv)" for st' v' rv
  proof -
    from compare_frame [OF c] have t: "take (length st) st' = st"
      and r: "rv = base (info self) st' v' section sub_section"
      by simp_all
    from t assms have "st' ! v = st ! v"
      by (metis nth_take)
    with t r show ?thesis by simp
  qed
  have atom: "compare base self st v section sub_section =
            Inr (st, v, base (info self) st v section sub_section)"
    if "st ! v = PyAtom x" for x
    using that by (auto simp: compare_def)
  from skip dict atom frame show ?thesis by blast
qed


lemma compare_filters_copy_examples:
  "compare cached_compare name_filter [tox_env_value] 0 ''ToxEnv'' None =
     Inr ([tox_env_value, PyDict [''type'' \<mapsto> ''CondaEnvRunner'']], 1, True)
   \<and> compare cached_compare tox_env_filter [PyList [''numpy'', ''scipy'']] 0 ''Pip'' None =
     Inr ([PyList [''numpy'', ''scipy'']], 0, False)"
proof -
  have filtered: "(\<lambda>k. if k \<in> set (value_of (filter_keys name_filter)) then None
                    else [''name'' \<mapsto> ''py39'', ''type'' \<mapsto> ''CondaEnvRunner''] k) =
      [''type'' \<mapsto> ''CondaEnvRunner'']"
    by (rule ext) (simp add: name_filter_def)
  have "compare cached_compare name_filter [tox_env_value] 0 ''ToxEnv'' None =
     Inr ([tox_env_value] @ [PyDict [''type'' \<mapsto> ''CondaEnvRunner'']], length [tox_env_value],
          cached_compare (info name_filter)
            ([tox_env_value] @ [PyDict [''type'' \<mapsto> ''CondaEnvRunner'']])
            (length [tox_env_value]) ''ToxEnv'' None)"
    using compare_filters_copy
      [of 0 "[tox_env_value]" name_filter "''ToxEnv''" cached_compare None,
       THEN conjunct2, THEN conjunct1, rule_format,
       of "[''name'' \<mapsto> ''py39'', ''type'' \<mapsto> ''CondaEnvRunner'']"]
    unfolding filtered
    by (simp add: name_filter_def tox_env_value_def)
  then have one: "compare cached_compare name_filter [tox_env_value] 0 ''ToxEnv'' None =
     Inr ([tox_env_value, PyDict [''type'' \<mapsto> ''CondaEnvRunner'']], 1, True)"
    by (simp add: cached_compare_def name_filter_def)
  have two: "compare cached_compare tox_env_filter [PyList [''numpy'', ''scipy'']] 0 ''Pip'' None =
     Inr ([PyList [''numpy'', ''scipy'']], 0, False)"
    using compare_filters_copy
      [of 0 "[PyList [''numpy'', ''scipy'']]" tox_env_filter "''Pip''" cached_compare None,
       THEN conjunct1]
    by (simp add: tox_env_filter_def name_filter_def cached_compare_def)
  from one two show ?thesis by simp
qed

text \<open>
  C10.  The claim is that, for every value, \<open>compare\<close> yields the result of the base
  comparison on the filtered value.  Values without \<^verbatim>\<open>copy\<close> are passed on because the
  \<^verbatim>\<open>AttributeError\<close> of \<^verbatim>\<open>value.copy()\<close> is caught; a list (or a set) has \<^verbatim>\<open>copy\<close>, and
  \<^verbatim>\<open>pop(key, None)\<close> on its copy is a \<^verbatim>\<open>TypeError\<close> that nothing catches.  With the default
  \<^verbatim>\<open>filter_section=None\<close> and one filter key, comparing a list of requirements raises and
  the base comparison is never reached.
\<close>

theorem compare_list_raises:
  "compare cached_compare name_filter [PyList [''numpy'', ''scipy'']] 0 ''Pip'' None
     = Inl TypeError"
  by (simp add: compare_def name_filter_def pop_def Let_def)


end
